theory Spec2Isabelle
  imports Complex_Main "HOL-Library.Multiset" "HOL-Library.Sublist"
begin

section \<open>JavaScript values used by server.js\<close>

text \<open>
  Strings are byte lists: a JavaScript string is represented by its UTF-8 encoding, so
  \<^verbatim>\<open>Buffer.from(s)\<close> is the string itself and \<^verbatim>\<open>includes\<close> is substring search on bytes.
  \<^verbatim>\<open>toLowerCase\<close> and the whitespace class of \<^verbatim>\<open>/\s+/\<close> are modelled on ASCII.

  Numbers are binary64 values: NaN, the two infinities, and the finite values as the
  rationals they denote. \<open>round64\<close> rounds a rational to the nearest binary64 value, ties
  to the even significand, with gradual underflow and overflow to the infinities; every
  arithmetic operation, \<^verbatim>\<open>parseFloat\<close> and the decimal literals of the source
  (\<^verbatim>\<open>1.05\<close>, \<^verbatim>\<open>0.95\<close>, \<^verbatim>\<open>0.98\<close>, \<^verbatim>\<open>1.02\<close>) round their exact value with it. The two
  zeros are one value: server.js compares numbers and never divides by a zero that
  could be negative.
\<close>

datatype jsnum = NaN | PosInf | NegInf | Fin rat

text \<open>The number of binary digits of a positive integer.\<close>

function bitLength :: "int \<Rightarrow> nat" where
  "bitLength n = (if n \<le> 0 then 0 else Suc (bitLength (n div 2)))"
  by pat_completeness auto
termination
  by (relation "measure nat") auto

declare bitLength.simps [simp del]

definition pow2 :: "int \<Rightarrow> rat" where
  "pow2 z = (if 0 \<le> z then 2 ^ nat z else 1 / 2 ^ nat (- z))"

definition roundHalfEven :: "rat \<Rightarrow> int" where
  "roundHalfEven s =
     (let f = \<lfloor>s\<rfloor>; r = s - of_int f
      in if r < 1 / 2 then f else if 1 / 2 < r then f + 1 else if even f then f else f + 1)"

text \<open>The exponent \<open>k\<close> with \<open>2 ^ k \<le> a < 2 ^ (k + 1)\<close>, for positive \<open>a\<close>.\<close>

definition floorLog2 :: "rat \<Rightarrow> int" where
  "floorLog2 a =
     (let k0 = int (bitLength (fst (quotient_of a))) - int (bitLength (snd (quotient_of a)))
      in if pow2 k0 \<le> a then k0 else k0 - 1)"

text \<open>
  Rounding to binary64. The significand has 53 bits, so the unit in the last place of
  \<open>a\<close> is \<open>2 ^ e\<close> with \<open>e\<close> the exponent of \<open>a\<close> less 52, and not below \<open>-1074\<close>, the
  exponent of the subnormal numbers. The rounded significand \<open>m\<close> is at most \<open>2 ^ 53\<close>;
  the result reaches \<open>2 ^ 1024\<close>, and overflows, when \<open>e\<close> exceeds 971 or \<open>m\<close> is \<open>2 ^ 53\<close>
  at \<open>e = 971\<close>.
\<close>

definition round64 :: "rat \<Rightarrow> jsnum" where
  "round64 q =
     (if q = 0 then Fin 0
      else
        let a = \<bar>q\<bar>;
            e = max (floorLog2 a - 52) (- 1074);
            m = roundHalfEven (a / pow2 e)
        in if 971 < e \<or> (e = 971 \<and> 2 ^ 53 \<le> m) then (if 0 < q then PosInf else NegInf)
           else Fin (if 0 < q then of_int m * pow2 e else - (of_int m * pow2 e)))"

text \<open>The finite binary64 values are multiples of \<open>2 ^ -1074\<close>.\<close>

definition onGrid :: "rat \<Rightarrow> bool" where
  "onGrid r = (\<exists>i::int. r = of_int i * pow2 (- 1074))"

fun js_isNaN :: "jsnum \<Rightarrow> bool" where
  "js_isNaN NaN = True"
| "js_isNaN _ = False"

text \<open>Truthiness of a number: \<^verbatim>\<open>NaN\<close> and \<^verbatim>\<open>0\<close> are falsy.\<close>

fun js_truthy :: "jsnum \<Rightarrow> bool" where
  "js_truthy NaN = False"
| "js_truthy (Fin r) = (r \<noteq> 0)"
| "js_truthy _ = True"

text \<open>\<^verbatim>\<open>a || b\<close> on numbers.\<close>

definition js_or :: "jsnum \<Rightarrow> jsnum \<Rightarrow> jsnum" where
  "js_or a b = (if js_truthy a then a else b)"

fun js_add :: "jsnum \<Rightarrow> jsnum \<Rightarrow> jsnum" where
  "js_add NaN _ = NaN"
| "js_add _ NaN = NaN"
| "js_add PosInf NegInf = NaN"
| "js_add NegInf PosInf = NaN"
| "js_add PosInf _ = PosInf"
| "js_add _ PosInf = PosInf"
| "js_add NegInf _ = NegInf"
| "js_add _ NegInf = NegInf"
| "js_add (Fin a) (Fin b) = round64 (a + b)"

fun js_neg :: "jsnum \<Rightarrow> jsnum" where
  "js_neg NaN = NaN"
| "js_neg PosInf = NegInf"
| "js_neg NegInf = PosInf"
| "js_neg (Fin a) = Fin (- a)"

definition js_sub :: "jsnum \<Rightarrow> jsnum \<Rightarrow> jsnum" where
  "js_sub a b = js_add a (js_neg b)"

text \<open>The sign of a number: \<open>1\<close>, \<open>-1\<close> or \<open>0\<close>, and \<open>None\<close> for NaN.\<close>

fun js_sign :: "jsnum \<Rightarrow> int option" where
  "js_sign NaN = None"
| "js_sign PosInf = Some 1"
| "js_sign NegInf = Some (- 1)"
| "js_sign (Fin a) = Some (if a < 0 then - 1 else if a = 0 then 0 else 1)"

fun js_mul :: "jsnum \<Rightarrow> jsnum \<Rightarrow> jsnum" where
  "js_mul (Fin a) (Fin b) = round64 (a * b)"
| "js_mul a b =
     (case (js_sign a, js_sign b) of
        (Some s, Some t) \<Rightarrow>
          (if s * t = 0 then NaN else if 0 < s * t then PosInf else NegInf)
      | _ \<Rightarrow> NaN)"

fun js_div :: "jsnum \<Rightarrow> jsnum \<Rightarrow> jsnum" where
  "js_div (Fin a) (Fin b) =
     (if b \<noteq> 0 then round64 (a / b)
      else if a = 0 then NaN else if 0 < a then PosInf else NegInf)"
| "js_div (Fin a) PosInf = Fin 0"
| "js_div (Fin a) NegInf = Fin 0"
| "js_div PosInf (Fin b) = (if b < 0 then NegInf else PosInf)"
| "js_div NegInf (Fin b) = (if b < 0 then PosInf else NegInf)"
| "js_div _ _ = NaN"

text \<open>Comparisons: every comparison with NaN is false.\<close>

fun js_lt :: "jsnum \<Rightarrow> jsnum \<Rightarrow> bool" where
  "js_lt NaN _ = False"
| "js_lt _ NaN = False"
| "js_lt PosInf _ = False"
| "js_lt _ NegInf = False"
| "js_lt NegInf _ = True"
| "js_lt _ PosInf = True"
| "js_lt (Fin a) (Fin b) = (a < b)"

fun js_le :: "jsnum \<Rightarrow> jsnum \<Rightarrow> bool" where
  "js_le NaN _ = False"
| "js_le _ NaN = False"
| "js_le NegInf _ = True"
| "js_le _ PosInf = True"
| "js_le PosInf _ = False"
| "js_le _ NegInf = False"
| "js_le (Fin a) (Fin b) = (a \<le> b)"

definition js_gt :: "jsnum \<Rightarrow> jsnum \<Rightarrow> bool" where
  "js_gt a b = js_lt b a"

definition js_ge :: "jsnum \<Rightarrow> jsnum \<Rightarrow> bool" where
  "js_ge a b = js_le b a"

text \<open>\<^verbatim>\<open>Math.min(...xs)\<close> and \<^verbatim>\<open>Math.max(...xs)\<close>: NaN if any argument is NaN,
  \<^verbatim>\<open>Infinity\<close> and \<^verbatim>\<open>-Infinity\<close> without arguments.\<close>

definition js_min2 :: "jsnum \<Rightarrow> jsnum \<Rightarrow> jsnum" where
  "js_min2 a b = (if js_isNaN a \<or> js_isNaN b then NaN else if js_lt b a then b else a)"

definition js_max2 :: "jsnum \<Rightarrow> jsnum \<Rightarrow> jsnum" where
  "js_max2 a b = (if js_isNaN a \<or> js_isNaN b then NaN else if js_lt a b then b else a)"

definition Math_min :: "jsnum list \<Rightarrow> jsnum" where
  "Math_min xs = foldl js_min2 PosInf xs"

definition Math_max :: "jsnum list \<Rightarrow> jsnum" where
  "Math_max xs = foldl js_max2 NegInf xs"

section \<open>Strings\<close>

definition isDigit :: "char \<Rightarrow> bool" where
  "isDigit c = (48 \<le> (of_char c :: nat) \<and> (of_char c :: nat) \<le> 57)"

definition digitVal :: "char \<Rightarrow> nat" where
  "digitVal c = of_char c - 48"

text \<open>\<^verbatim>\<open>s.replace(/[^0-9.]/g, '')\<close>: keep the digits and the dots.\<close>

definition stripNonNumeric :: "string \<Rightarrow> string" where
  "stripNonNumeric s = filter (\<lambda>c. isDigit c \<or> c = CHR ''.'') s"

definition decimal :: "string \<Rightarrow> rat" where
  "decimal ds = foldl (\<lambda>acc c. 10 * acc + of_nat (digitVal c)) 0 ds"

text \<open>
  \<^verbatim>\<open>parseFloat\<close> reads the longest prefix that is a decimal literal: digits, then
  optionally a dot and digits; at least one digit is needed, otherwise the result is NaN.
  The result is the binary64 value nearest to the decimal value read.
  Every call in server.js passes a string that \<open>stripNonNumeric\<close> has reduced to digits
  and dots, so leading white space, signs, exponents and the word Infinity, which
  \<^verbatim>\<open>parseFloat\<close> also reads, never reach it.
\<close>

definition parseFloat :: "string \<Rightarrow> jsnum" where
  "parseFloat s =
     (let ip = takeWhile isDigit s;
          rest = dropWhile isDigit s;
          fp = (case rest of
                  [] \<Rightarrow> []
                | c # t \<Rightarrow> if c = CHR ''.'' then takeWhile isDigit t else [])
      in if ip = [] \<and> fp = [] then NaN
         else round64 (decimal ip + decimal fp / 10 ^ length fp))"

text \<open>\<^verbatim>\<open>parseFloat(s.replace(/[^0-9.]/g, ''))\<close>, the idiom of every price comparison.\<close>

definition parsePrice :: "string \<Rightarrow> jsnum" where
  "parsePrice s = parseFloat (stripNonNumeric s)"

section \<open>Price history and the trend classifier\<close>

text \<open>The table \<^verbatim>\<open>price_history (product_id, price, timestamp)\<close>; \<^verbatim>\<open>price\<close> is
  \<^verbatim>\<open>TEXT NOT NULL\<close>.\<close>

record price_point =
  product_id :: string
  hist_price :: string
  timestamp :: nat

text \<open>What \<^verbatim>\<open>db.all\<close> hands to its callback: an error, or the rows.\<close>

datatype query_result = QueryError | Rows "string list"

text \<open>
  \<^verbatim>\<open>SELECT price FROM price_history WHERE product_id = ? ORDER BY timestamp DESC LIMIT 5\<close>.
  SQL leaves the order of rows with equal timestamps to the engine; here they keep the
  order of the table.
\<close>

definition selectRecentPrices :: "price_point list \<Rightarrow> string \<Rightarrow> string list" where
  "selectRecentPrices tbl pid =
     map hist_price
       (take 5 (sort_key (\<lambda>r. - int (timestamp r)) (filter (\<lambda>r. product_id r = pid) tbl)))"

definition db_all_price_history :: "price_point list \<Rightarrow> string \<Rightarrow> query_result" where
  "db_all_price_history tbl pid = Rows (selectRecentPrices tbl pid)"

datatype trend = Buy | Wait | Neutral

text \<open>
  \<^verbatim>\<open>getPricePrediction(productId, currentPrice)\<close>. The first argument is the database as
  the query sees it. \<open>currentPrice\<close> is \<open>None\<close> when the caller passes \<^verbatim>\<open>undefined\<close>
  or \<^verbatim>\<open>null\<close>; \<^verbatim>\<open>currentPrice.replace\<close> then raises a TypeError inside the database
  callback, which nothing catches: the result \<open>None\<close>.
\<close>

definition getPricePrediction ::
    "(string \<Rightarrow> query_result) \<Rightarrow> string \<Rightarrow> string option \<Rightarrow> trend option" where
  "getPricePrediction db productId currentPrice =
     (case db productId of
        QueryError \<Rightarrow> Some Neutral
      | Rows rows \<Rightarrow>
          if length rows < 3 then Some Neutral
          else
            let prices = filter (\<lambda>p. \<not> js_isNaN p) (map parsePrice rows) in
            if length prices < 3 then Some Neutral
            else
              (case currentPrice of
                 None \<Rightarrow> None
               | Some cp \<Rightarrow>
                   let latestPrice = parsePrice cp;
                       averageRecent =
                         js_div (foldl js_add (Fin 0) prices) (Fin (of_nat (length prices)));
                       minPrice = Math_min prices;
                       maxPrice = Math_max prices
                   in if js_le latestPrice (js_mul minPrice (round64 (105 / 100))) then Some Buy
                      else if js_ge latestPrice (js_mul maxPrice (round64 (95 / 100))) then Some Wait
                      else if js_lt latestPrice (js_mul averageRecent (round64 (98 / 100))) then Some Buy
                      else if js_gt latestPrice (js_mul averageRecent (round64 (102 / 100))) then Some Wait
                      else Some Neutral))"

text \<open>The parsed history: the rows that parse to a number, in the order of the query.\<close>

definition parsedPrices :: "string list \<Rightarrow> jsnum list" where
  "parsedPrices rows = filter (\<lambda>p. \<not> js_isNaN p) (map parsePrice rows)"

definition isMinimumOf :: "jsnum \<Rightarrow> jsnum list \<Rightarrow> bool" where
  "isMinimumOf m xs = (m \<in> set xs \<and> (\<forall>x\<in>set xs. js_le m x))"

definition isMaximumOf :: "jsnum \<Rightarrow> jsnum list \<Rightarrow> bool" where
  "isMaximumOf m xs = (m \<in> set xs \<and> (\<forall>x\<in>set xs. js_le x m))"

text \<open>The average as server.js computes it: the binary64 sum of the numbers from left to
  right, divided by their count.\<close>

definition averageOf :: "jsnum list \<Rightarrow> jsnum" where
  "averageOf xs = js_div (foldl js_add (Fin 0) xs) (Fin (of_nat (length xs)))"

text \<open>The ordered sequence of branches of the specification, with binary64 products.\<close>

definition branchSequence :: "jsnum \<Rightarrow> jsnum \<Rightarrow> jsnum \<Rightarrow> jsnum \<Rightarrow> trend" where
  "branchSequence mn mx avg c =
     (if js_le c (js_mul mn (round64 (105 / 100))) then Buy
      else if js_ge c (js_mul mx (round64 (95 / 100))) then Wait
      else if js_lt c (js_mul avg (round64 (98 / 100))) then Buy
      else if js_gt c (js_mul avg (round64 (102 / 100))) then Wait
      else Neutral)"

text \<open>The classification read in exact arithmetic, over the values of the finite parsed
  prices: minimum, maximum and arithmetic mean, the thresholds as decimal fractions.\<close>

definition parsedHistory :: "string list \<Rightarrow> rat list" where
  "parsedHistory rows =
     List.map_filter (\<lambda>s. case parsePrice s of Fin r \<Rightarrow> Some r | _ \<Rightarrow> None) rows"

definition classifySpec :: "rat list \<Rightarrow> rat \<Rightarrow> trend" where
  "classifySpec ps c =
     (let mn = Min (set ps); mx = Max (set ps); avg = sum_list ps / of_nat (length ps)
      in if c \<le> mn * (105 / 100) then Buy
         else if c \<ge> mx * (95 / 100) then Wait
         else if c < avg * (98 / 100) then Buy
         else if c > avg * (102 / 100) then Wait
         else Neutral)"

section \<open>Products and the ranker\<close>

text \<open>The object built for each result item; \<open>None\<close> is \<^verbatim>\<open>undefined\<close>. The title is a
  string, as the column \<^verbatim>\<open>title TEXT NOT NULL\<close> of the products table requires, and a price
  that is present is a string.\<close>

record product =
  pid :: string
  title :: string
  price :: "string option"
  link :: string
  source :: string
  thumbnail :: "string option"
  rating :: "rat option"
  prediction :: "trend option"

definition toLowerCase :: "string \<Rightarrow> string" where
  "toLowerCase s =
     map (\<lambda>c. if 65 \<le> (of_char c :: nat) \<and> (of_char c :: nat) \<le> 90
              then char_of ((of_char c :: nat) + 32) else c) s"

text \<open>\<^verbatim>\<open>s.includes(sub)\<close>.\<close>

fun str_includes :: "string \<Rightarrow> string \<Rightarrow> bool" where
  "str_includes [] sub = (sub = [])"
| "str_includes (c # cs) sub = (prefix sub (c # cs) \<or> str_includes cs sub)"

definition isSpace :: "char \<Rightarrow> bool" where
  "isSpace c = (c \<in> set [CHR 0x20, CHR 0x09, CHR 0x0A, CHR 0x0B, CHR 0x0C, CHR 0x0D])"

text \<open>\<^verbatim>\<open>s.split(/\s+/)\<close>: the pieces between maximal runs of white space, an empty piece
  before a leading run and after a trailing one. \<open>inRun\<close> says that the previous character
  was white space, \<open>cur\<close> is the piece read so far.\<close>

fun splitRuns :: "string \<Rightarrow> bool \<Rightarrow> string \<Rightarrow> string list" where
  "splitRuns [] inRun cur = [cur]"
| "splitRuns (c # cs) inRun cur =
     (if isSpace c then (if inRun then splitRuns cs True [] else cur # splitRuns cs True [])
      else splitRuns cs False (cur @ [c]))"

definition splitWhitespace :: "string \<Rightarrow> string list" where
  "splitWhitespace s = splitRuns s False []"

definition accessoryKeywords :: "string list" where
  "accessoryKeywords =
     [''case'', ''cover'', ''screen protector'', ''tempered glass'', ''skin'', ''pouch'',
      ''stand'', ''holder'', ''strap'', ''charger'', ''cable'', ''adapter'', ''earbuds'',
      ''headphones'', ''protector'', ''bag'', ''back cover'', ''flip cover'', ''bumper'',
      ''shell'', ''guard'']"

definition isAccessory :: "string \<Rightarrow> bool" where
  "isAccessory t = list_ex (\<lambda>k. str_includes (toLowerCase t) k) accessoryKeywords"

definition queryWords :: "string \<Rightarrow> string list" where
  "queryWords query = filter (\<lambda>word. length word > 0) (splitWhitespace (toLowerCase query))"

definition isRelevant :: "string list \<Rightarrow> string \<Rightarrow> bool" where
  "isRelevant qws t = (list_all (\<lambda>qw. str_includes (toLowerCase t) qw) qws \<and> \<not> isAccessory t)"

text \<open>\<^verbatim>\<open>parseFloat((a.price || '').replace(/[^0-9.]/g, '')) || Infinity\<close>.\<close>

definition sortPrice :: "product \<Rightarrow> jsnum" where
  "sortPrice a = js_or (parsePrice (case price a of None \<Rightarrow> [] | Some s \<Rightarrow> s)) PosInf"

text \<open>The comparison function handed to \<^verbatim>\<open>products.sort\<close>.\<close>

definition compareProducts :: "string list \<Rightarrow> product \<Rightarrow> product \<Rightarrow> jsnum" where
  "compareProducts qws a b =
     (let aRelevant = isRelevant qws (title a);
          bRelevant = isRelevant qws (title b)
      in if aRelevant \<and> \<not> bRelevant then Fin (- 1)
         else if \<not> aRelevant \<and> bRelevant then Fin 1
         else js_sub (sortPrice a) (sortPrice b))"

text \<open>
  \<^verbatim>\<open>Array.prototype.sort(compareFn)\<close>: ECMAScript requires the sort to be stable, an element
  \<open>y\<close> to come before \<open>x\<close> when \<open>compareFn(y, x)\<close> is negative, and takes a NaN result as
  zero. For a comparison function that is a consistent ordering there is one such
  arrangement, computed here by insertion from the right.
\<close>

fun insertBy :: "('a \<Rightarrow> 'a \<Rightarrow> jsnum) \<Rightarrow> 'a \<Rightarrow> 'a list \<Rightarrow> 'a list" where
  "insertBy cmp x [] = [x]"
| "insertBy cmp x (y # ys) =
     (if js_lt (cmp y x) (Fin 0) then y # insertBy cmp x ys else x # y # ys)"

definition array_sort :: "('a \<Rightarrow> 'a \<Rightarrow> jsnum) \<Rightarrow> 'a list \<Rightarrow> 'a list" where
  "array_sort cmp xs = foldr (insertBy cmp) xs []"

definition filterAndSortProducts :: "product list \<Rightarrow> string \<Rightarrow> product list" where
  "filterAndSortProducts products query = array_sort (compareProducts (queryWords query)) products"

section \<open>Product identity\<close>

text \<open>\<^verbatim>\<open>Buffer.from(s).toString('base64')\<close>: three bytes give four characters of the
  alphabet, a last group of one or two bytes is padded with \<^verbatim>\<open>=\<close>.\<close>

definition base64Alphabet :: string where
  "base64Alphabet = ''ABCDEFGHIJKLMNOPQRSTUVWXYZabcdefghijklmnopqrstuvwxyz0123456789+/''"

definition sextet :: "nat \<Rightarrow> char" where
  "sextet n = base64Alphabet ! n"

fun base64Bytes :: "nat list \<Rightarrow> string" where
  "base64Bytes [] = []"
| "base64Bytes [a] = [sextet (a div 4), sextet ((a mod 4) * 16), CHR ''='', CHR ''='']"
| "base64Bytes [a, b] =
     [sextet (a div 4), sextet ((a mod 4) * 16 + b div 16), sextet ((b mod 16) * 4), CHR ''='']"
| "base64Bytes (a # b # c # rest) =
     sextet (a div 4) # sextet ((a mod 4) * 16 + b div 16)
       # sextet ((b mod 16) * 4 + c div 64) # sextet (c mod 64) # base64Bytes rest"

definition base64 :: "string \<Rightarrow> string" where
  "base64 s = base64Bytes (map of_char s)"

text \<open>The identity of a listing:
  \<^verbatim>\<open>Buffer.from(`${title}-${source}-${link}`).toString('base64')\<close>.\<close>

definition productIdentity :: "string \<Rightarrow> string \<Rightarrow> string \<Rightarrow> string" where
  "productIdentity t s l = base64 (t @ ''-'' @ s @ ''-'' @ l)"

section \<open>The provider adapters\<close>

text \<open>An item of a provider's result array, with the fields server.js reads. Title, links
  and source are strings; price, thumbnail, image and rating may be absent.\<close>

record raw_item =
  item_title :: string
  item_price :: "string option"
  item_product_link :: string
  item_link :: string
  item_source :: string
  item_thumbnail :: "string option"
  item_image :: "string option"
  item_rating :: "rat option"

text \<open>Truthiness of an optional string: \<^verbatim>\<open>undefined\<close> and \<^verbatim>\<open>''\<close> are falsy.\<close>

definition strTruthy :: "string option \<Rightarrow> bool" where
  "strTruthy v = (case v of None \<Rightarrow> False | Some s \<Rightarrow> s \<noteq> [])"

definition googleProduct :: "raw_item \<Rightarrow> product" where
  "googleProduct item =
     \<lparr>pid = productIdentity (item_title item) (item_source item) (item_product_link item),
      title = item_title item, price = item_price item, link = item_product_link item,
      source = item_source item, thumbnail = item_thumbnail item, rating = item_rating item,
      prediction = None\<rparr>"

definition amazonProduct :: "raw_item \<Rightarrow> product" where
  "amazonProduct item =
     \<lparr>pid = productIdentity (item_title item) ''Amazon'' (item_link item),
      title = item_title item, price = item_price item, link = item_link item,
      source = ''Amazon'',
      thumbnail = (if strTruthy (item_thumbnail item) then item_thumbnail item
                   else item_image item),
      rating = item_rating item, prediction = None\<rparr>"

definition ebayProduct :: "raw_item \<Rightarrow> product" where
  "ebayProduct item =
     \<lparr>pid = productIdentity (item_title item) ''eBay'' (item_link item),
      title = item_title item, price = item_price item, link = item_link item,
      source = ''eBay'', thumbnail = item_thumbnail item,
      rating = Some (case item_rating item of None \<Rightarrow> 0 | Some r \<Rightarrow> r),
      prediction = None\<rparr>"

definition googleProducts :: "raw_item list \<Rightarrow> product list" where
  "googleProducts shopping_results = map googleProduct shopping_results"

definition amazonProducts :: "raw_item list \<Rightarrow> product list" where
  "amazonProducts product_results = map amazonProduct product_results"

definition ebayProducts :: "raw_item list \<Rightarrow> product list" where
  "ebayProducts organic_results =
     map ebayProduct
       (filter (\<lambda>item. strTruthy (item_price item) \<and> strTruthy (item_thumbnail item))
          organic_results)"

section \<open>The aggregation search\<close>

datatype provider = GoogleShopping | Amazon | EBay

text \<open>
  What one provider's block of \<^verbatim>\<open>performSerpApiSearch\<close> sees: \<^verbatim>\<open>axios.get\<close> throws
  (time-out, status outside 2xx, network error), or the response lacks the provider's
  results field, or the field holds an array of items, possibly empty. An exception
  raised anywhere in the block is caught by the block's own \<^verbatim>\<open>catch\<close>, so a payload that is
  not of this shape counts as \<open>Throws\<close>.
\<close>

datatype response = Throws | NoResultsField | ResultsField "raw_item list"

datatype search_error = NoProductsFound | UncaughtTypeError

definition rupee :: string where
  "rupee = [CHR 0xE2, CHR 0x82, CHR 0xB9]"

text \<open>The price shown: the rupee sign followed by \<^verbatim>\<open>parseFloat(...).toFixed(2)\<close>, unless
  the price is absent, empty or already carries the sign. \<^verbatim>\<open>Number.prototype.toFixed\<close> is
  a parameter.\<close>

definition formatPrice :: "(jsnum \<Rightarrow> string) \<Rightarrow> string option \<Rightarrow> string option" where
  "formatPrice toFixed2 p =
     (case p of
        None \<Rightarrow> None
      | Some s \<Rightarrow>
          if s \<noteq> [] \<and> \<not> str_includes s rupee then Some (rupee @ toFixed2 (parsePrice s))
          else Some s)"

definition hasResultsField :: "response \<Rightarrow> bool" where
  "hasResultsField r = (case r of ResultsField _ \<Rightarrow> True | _ \<Rightarrow> False)"

text \<open>The normalized list of a provider's items.\<close>

fun normalized :: "provider \<Rightarrow> raw_item list \<Rightarrow> product list" where
  "normalized GoogleShopping items = googleProducts items"
| "normalized Amazon items = amazonProducts items"
| "normalized EBay items = ebayProducts items"

text \<open>The tables \<^verbatim>\<open>products\<close> and \<^verbatim>\<open>price_history\<close> that the search writes and reads.\<close>

record product_row =
  prod_id :: string
  prod_title :: string
  prod_thumbnail :: "string option"
  prod_link :: string
  prod_source :: string
  last_price :: "string option"
  last_updated :: nat

record store =
  store_products :: "product_row list"
  store_price_history :: "price_point list"

text \<open>\<^verbatim>\<open>INSERT OR REPLACE INTO products\<close>: a row with the same id is deleted, the new row
  is added.\<close>

definition insertOrReplaceProduct :: "nat \<Rightarrow> product \<Rightarrow> product_row list \<Rightarrow> product_row list" where
  "insertOrReplaceProduct now p tbl =
     filter (\<lambda>r. prod_id r \<noteq> pid p) tbl
       @ [\<lparr>prod_id = pid p, prod_title = title p, prod_thumbnail = thumbnail p,
           prod_link = link p, prod_source = source p, last_price = price p,
           last_updated = now\<rparr>]"

text \<open>\<^verbatim>\<open>INSERT INTO price_history\<close>, issued by the callback of the product's upsert. The
  column \<^verbatim>\<open>price\<close> is \<^verbatim>\<open>NOT NULL\<close>: for a product without a price the statement fails,
  the error is logged and no row is added.\<close>

definition newPricePoints :: "nat \<Rightarrow> product list \<Rightarrow> price_point list" where
  "newPricePoints now ps =
     concat (map (\<lambda>p. case price p of
                         None \<Rightarrow> []
                       | Some s \<Rightarrow> [\<lparr>product_id = pid p, hist_price = s, timestamp = now\<rparr>]) ps)"

text \<open>The loop that stores the products, at time \<open>now\<close>.\<close>

definition storeProducts :: "nat \<Rightarrow> product list \<Rightarrow> store \<Rightarrow> store" where
  "storeProducts now ps st =
     \<lparr>store_products = foldl (\<lambda>tbl p. insertOrReplaceProduct now p tbl) (store_products st) ps,
      store_price_history = store_price_history st @ newPricePoints now ps\<rparr>"

text \<open>
  The statements run asynchronously, so the predictions read a price history that this
  search is still writing. \<open>seen n k\<close> is the number of the search's \<open>n\<close> new rows that are
  in the table when the prediction of the item at position \<open>k\<close> reads it. In the order
  in which the statements are queued, the first read comes before the inserts into
  price_history, which the callbacks of the upserts issue, and the later reads come
  after them: \<open>firstReadBefore\<close>.
\<close>

definition historySeen ::
    "(nat \<Rightarrow> nat \<Rightarrow> nat) \<Rightarrow> nat \<Rightarrow> product list \<Rightarrow> price_point list \<Rightarrow> nat \<Rightarrow> price_point list" where
  "historySeen seen now ps old k =
     old @ take (seen (length (newPricePoints now ps)) k) (newPricePoints now ps)"

definition firstReadBefore :: "nat \<Rightarrow> nat \<Rightarrow> nat" where
  "firstReadBefore n k = (if k = 0 then 0 else n)"

text \<open>The loop that adds the predictions and formats the prices, from the item at
  position \<open>k\<close> on. An uncaught exception in \<open>getPricePrediction\<close> ends it.\<close>

fun addPredictions ::
    "(nat \<Rightarrow> price_point list) \<Rightarrow> (jsnum \<Rightarrow> string) \<Rightarrow> nat \<Rightarrow> product list
      \<Rightarrow> product list option" where
  "addPredictions hist toFixed2 k [] = Some []"
| "addPredictions hist toFixed2 k (p # ps) =
     (case getPricePrediction (db_all_price_history (hist k)) (pid p) (price p) of
        None \<Rightarrow> None
      | Some t \<Rightarrow>
          (case addPredictions hist toFixed2 (Suc k) ps of
             None \<Rightarrow> None
           | Some ps' \<Rightarrow>
               Some (p\<lparr>price := formatPrice toFixed2 (price p), prediction := Some t\<rparr> # ps')))"

definition enrichAndRank ::
    "(nat \<Rightarrow> price_point list) \<Rightarrow> (jsnum \<Rightarrow> string) \<Rightarrow> product list \<Rightarrow> string
      \<Rightarrow> search_error + product list" where
  "enrichAndRank hist toFixed2 ps query =
     (case addPredictions hist toFixed2 0 ps of
        None \<Rightarrow> Inl UncaughtTypeError
      | Some ps' \<Rightarrow> Inr (filterAndSortProducts ps' query))"

text \<open>What each provider's block does with its normalized list: store, predict, format,
  rank. The result is the value returned or the uncaught error, and the store.\<close>

definition processProducts ::
    "(nat \<Rightarrow> nat \<Rightarrow> nat) \<Rightarrow> (jsnum \<Rightarrow> string) \<Rightarrow> nat \<Rightarrow> store \<Rightarrow> product list \<Rightarrow> string
      \<Rightarrow> (search_error + product list) \<times> store" where
  "processProducts seen toFixed2 now st ps query =
     (enrichAndRank (historySeen seen now ps (store_price_history st)) toFixed2 ps query,
      storeProducts now ps st)"

text \<open>
  \<^verbatim>\<open>performSerpApiSearch(query)\<close>. \<open>fetch\<close> is the providers' answer to the request built
  from the query, \<open>st\<close> the store before the search, \<open>now\<close> the time of its writes. The
  result is the list of providers that were asked, in order, then the value returned or
  the error thrown, then the store. The API key has a default value in the source, so
  the configuration error at the head of the function is never raised.
\<close>

definition performSerpApiSearch ::
    "(provider \<Rightarrow> string \<Rightarrow> response) \<Rightarrow> (nat \<Rightarrow> nat \<Rightarrow> nat) \<Rightarrow> (jsnum \<Rightarrow> string) \<Rightarrow> nat \<Rightarrow> store
      \<Rightarrow> string \<Rightarrow> provider list \<times> (search_error + product list) \<times> store" where
  "performSerpApiSearch fetch seen toFixed2 now st query =
     (case fetch GoogleShopping query of
        ResultsField shopping_results \<Rightarrow>
          ([GoogleShopping],
           processProducts seen toFixed2 now st (googleProducts shopping_results) query)
      | _ \<Rightarrow>
          (case fetch Amazon query of
             ResultsField product_results \<Rightarrow>
               ([GoogleShopping, Amazon],
                processProducts seen toFixed2 now st (amazonProducts product_results) query)
           | _ \<Rightarrow>
               (case fetch EBay query of
                  ResultsField organic_results \<Rightarrow>
                    ([GoogleShopping, Amazon, EBay],
                     processProducts seen toFixed2 now st (ebayProducts organic_results) query)
                | _ \<Rightarrow> ([GoogleShopping, Amazon, EBay], Inl NoProductsFound, st))))"

text \<open>A prediction of the loop raises: an item has no price and the history read for it
  has at least three rows that parse.\<close>

definition raisesTypeError :: "(nat \<Rightarrow> price_point list) \<Rightarrow> product list \<Rightarrow> bool" where
  "raisesTypeError hist ps =
     list_ex (\<lambda>k. price (ps ! k) = None \<and>
                 3 \<le> length (parsedPrices (selectRecentPrices (hist k) (pid (ps ! k)))))
       [0..<length ps]"

text \<open>What the enrichment leaves as it is: every field but the price and the
  prediction.\<close>

definition listingOf ::
    "product \<Rightarrow> string \<times> string \<times> string \<times> string \<times> string option \<times> rat option" where
  "listingOf p = (pid p, title p, link p, source p, thumbnail p, rating p)"

text \<open>The outcome for a normalized list: the uncaught error exactly when a prediction
  raises, and otherwise the ranking of the items of the list, each with its price
  formatted and with a prediction.\<close>

definition outcomeFor ::
    "search_error + product list \<Rightarrow> (nat \<Rightarrow> price_point list) \<Rightarrow> (jsnum \<Rightarrow> string)
      \<Rightarrow> product list \<Rightarrow> string \<Rightarrow> bool" where
  "outcomeFor outcome hist tf ps q =
     ((outcome = Inl UncaughtTypeError \<longleftrightarrow> raisesTypeError hist ps) \<and>
      (outcome \<noteq> Inl UncaughtTypeError \<longrightarrow>
         (\<exists>enriched. outcome = Inr (filterAndSortProducts enriched q) \<and>
            map listingOf enriched = map listingOf ps \<and>
            map price enriched = map (\<lambda>x. formatPrice tf (price x)) ps \<and>
            list_all (\<lambda>x. prediction x \<noteq> None) enriched)))"

section \<open>Wishlist\<close>

text \<open>The table \<^verbatim>\<open>wishlists\<close> with primary key \<^verbatim>\<open>(user_id, product_id)\<close>, as the list of
  its rows.\<close>

record wishlist_row =
  wl_user_id :: string
  wl_product_id :: string
  wl_added_at :: nat

definition wl_key :: "wishlist_row \<Rightarrow> string \<times> string" where
  "wl_key r = (wl_user_id r, wl_product_id r)"

text \<open>\<^verbatim>\<open>INSERT OR IGNORE INTO wishlists\<close>: the number of rows changed and the new table.\<close>

definition insertOrIgnore :: "wishlist_row \<Rightarrow> wishlist_row list \<Rightarrow> nat \<times> wishlist_row list" where
  "insertOrIgnore r tbl =
     (if wl_key r \<in> set (map wl_key tbl) then (0, tbl) else (1, tbl @ [r]))"

text \<open>
  \<^verbatim>\<open>POST /wishlist/add\<close> with the body's \<open>userId\<close> and \<open>productId\<close>, at time \<open>now\<close>: the status
  and message of the answer, and the table afterwards. An absent or empty identifier is
  falsy and answered with status 400. The statement runs on a store that does not fail,
  so the branch for a database error (status 500) is never taken.
\<close>

definition wishlistAdd ::
    "string option \<Rightarrow> string option \<Rightarrow> nat \<Rightarrow> wishlist_row list
      \<Rightarrow> (nat \<times> string) \<times> wishlist_row list" where
  "wishlistAdd userId productId now tbl =
     (case (userId, productId) of
        (Some u, Some p) \<Rightarrow>
          if u = [] \<or> p = [] then ((400, ''User ID and Product ID are required.''), tbl)
          else
            let (changes, tbl') =
                  insertOrIgnore \<lparr>wl_user_id = u, wl_product_id = p, wl_added_at = now\<rparr> tbl
            in ((200, if changes > 0 then ''Added to wishlist.'' else ''Already in wishlist.''),
                tbl')
      | _ \<Rightarrow> ((400, ''User ID and Product ID are required.''), tbl))"

section \<open>Cart reminders\<close>

record cart_row =
  cart_user_id :: nat
  cart_product_id :: string
  reminder_price :: "string option"
  cart_added_at :: nat

record customer_row =
  cust_id :: nat
  cust_name :: string
  cust_email :: string

text \<open>A row of the worker's query: cart joined with products and customers, the reminder
  price not null.\<close>

record reminder_row =
  rr_user_id :: nat
  rr_product_id :: string
  rr_reminder_price :: string
  rr_title :: string
  rr_last_price :: "string option"
  rr_email :: string
  rr_name :: string

definition selectReminderRows ::
    "cart_row list \<Rightarrow> product_row list \<Rightarrow> customer_row list \<Rightarrow> reminder_row list" where
  "selectReminderRows cart products customers =
     concat (map (\<lambda>c.
       concat (map (\<lambda>p.
         concat (map (\<lambda>cu.
           (case reminder_price c of
              None \<Rightarrow> []
            | Some rp \<Rightarrow>
                if cart_product_id c = prod_id p \<and> cart_user_id c = cust_id cu
                then [\<lparr>rr_user_id = cart_user_id c, rr_product_id = cart_product_id c,
                       rr_reminder_price = rp, rr_title = prod_title p,
                       rr_last_price = last_price p, rr_email = cust_email cu,
                       rr_name = cust_name cu\<rparr>]
                else [])) customers)) products)) cart)"

text \<open>A call of \<^verbatim>\<open>sendPriceDropEmail(email, name, productTitle, price)\<close>, which hands one
  message to the mail transport and swallows its failure.\<close>

record email_send =
  mail_to :: string
  mail_name :: string
  mail_product :: string
  mail_price :: "string option"

text \<open>\<^verbatim>\<open>UPDATE cart SET reminder_price = NULL WHERE user_id = ? AND product_id = ?\<close>.\<close>

definition clearReminder :: "nat \<Rightarrow> string \<Rightarrow> cart_row list \<Rightarrow> cart_row list" where
  "clearReminder u p cart =
     map (\<lambda>c. if cart_user_id c = u \<and> cart_product_id c = p
              then c\<lparr>reminder_price := None\<rparr> else c) cart"

text \<open>The body of \<^verbatim>\<open>rows.forEach\<close> for one row, on the cart table and the list of emails
  sent so far.\<close>

definition sweepRow ::
    "reminder_row \<Rightarrow> cart_row list \<times> email_send list \<Rightarrow> cart_row list \<times> email_send list" where
  "sweepRow row st =
     (let currentPrice = parsePrice (case rr_last_price row of None \<Rightarrow> [] | Some s \<Rightarrow> s);
          reminderPrice = parsePrice (rr_reminder_price row)
      in if \<not> js_isNaN currentPrice \<and> \<not> js_isNaN reminderPrice
            \<and> js_le currentPrice reminderPrice
         then (clearReminder (rr_user_id row) (rr_product_id row) (fst st),
               snd st @ [\<lparr>mail_to = rr_email row, mail_name = rr_name row,
                          mail_product = rr_title row, mail_price = rr_last_price row\<rparr>])
         else st)"

definition priceDropSweep ::
    "product_row list \<Rightarrow> customer_row list \<Rightarrow> cart_row list \<times> email_send list
      \<Rightarrow> cart_row list \<times> email_send list" where
  "priceDropSweep products customers st =
     foldl (\<lambda>s row. sweepRow row s) st (selectReminderRows (fst st) products customers)"

text \<open>The reminder price stored for a user and a product: \<open>None\<close> if there is no such
  row, \<open>Some None\<close> if the row's reminder is null.\<close>

definition reminderOf :: "cart_row list \<Rightarrow> nat \<Rightarrow> string \<Rightarrow> string option option" where
  "reminderOf cart u p =
     map_option reminder_price
       (find (\<lambda>c. cart_user_id c = u \<and> cart_product_id c = p) cart)"

section \<open>Example inputs\<close>

definition historyExample :: "price_point list" where
  "historyExample =
     [\<lparr>product_id = ''x'', hist_price = ''100'', timestamp = 1\<rparr>,
      \<lparr>product_id = ''y'', hist_price = ''7'', timestamp = 2\<rparr>,
      \<lparr>product_id = ''x'', hist_price = ''$100'', timestamp = 3\<rparr>,
      \<lparr>product_id = ''x'', hist_price = ''50.00'', timestamp = 4\<rparr>]"

definition listing :: "string \<Rightarrow> string \<Rightarrow> product" where
  "listing t p =
     \<lparr>pid = productIdentity t ''shop'' ''https://shop.example/item'', title = t, price = Some p,
      link = ''https://shop.example/item'', source = ''shop'', thumbnail = None,
      rating = None, prediction = None\<rparr>"

definition rankExample :: "product list" where
  "rankExample =
     [listing ''iPhone 15 Pro'' ''80000'', listing ''iPhone 15 case'' ''500'',
      listing ''Samsung S25'' ''70000'']"

definition zeroPriceExample :: "product list" where
  "zeroPriceExample = [listing ''phone a'' ''0'', listing ''phone b'' ''5'']"

text \<open>A result item with a price and no thumbnail, and one with both.\<close>

definition priceOnlyItem :: raw_item where
  "priceOnlyItem =
     \<lparr>item_title = ''Used phone'', item_price = Some ''$10'', item_product_link = [],
      item_link = ''https://ebay.example/1'', item_source = [], item_thumbnail = None,
      item_image = None, item_rating = None\<rparr>"

definition fullItem :: raw_item where
  "fullItem =
     \<lparr>item_title = ''New phone'', item_price = Some ''$20'',
      item_product_link = ''https://shop.example/2'', item_link = ''https://shop.example/2'',
      item_source = ''shop'', item_thumbnail = Some ''https://img.example/2.jpg'',
      item_image = None, item_rating = None\<rparr>"

text \<open>Google Shopping answers with an empty result array, Amazon has an item.\<close>

fun emptyGoogleFetch :: "provider \<Rightarrow> string \<Rightarrow> response" where
  "emptyGoogleFetch GoogleShopping q = ResultsField []"
| "emptyGoogleFetch Amazon q = ResultsField [fullItem]"
| "emptyGoogleFetch EBay q = Throws"

text \<open>Google Shopping fails, Amazon answers without results field, eBay has items.\<close>

fun fallbackFetch :: "provider \<Rightarrow> string \<Rightarrow> response" where
  "fallbackFetch GoogleShopping q = Throws"
| "fallbackFetch Amazon q = NoResultsField"
| "fallbackFetch EBay q = ResultsField [fullItem, priceOnlyItem]"

fun failingFetch :: "provider \<Rightarrow> string \<Rightarrow> response" where
  "failingFetch GoogleShopping q = Throws"
| "failingFetch Amazon q = NoResultsField"
| "failingFetch EBay q = Throws"

definition emptyStore :: store where
  "emptyStore = \<lparr>store_products = [], store_price_history = []\<rparr>"

text \<open>Google Shopping answers four times with the same listing.\<close>

fun repeatedFetch :: "provider \<Rightarrow> string \<Rightarrow> response" where
  "repeatedFetch GoogleShopping q = ResultsField [fullItem, fullItem, fullItem, fullItem]"
| "repeatedFetch p q = Throws"

text \<open>Google Shopping answers with an item that has no price, and the store holds
  three prices of that item.\<close>

definition noPriceItem :: raw_item where
  "noPriceItem =
     \<lparr>item_title = ''Old phone'', item_price = None,
      item_product_link = ''https://shop.example/3'', item_link = ''https://shop.example/3'',
      item_source = ''shop'', item_thumbnail = Some ''https://img.example/3.jpg'',
      item_image = None, item_rating = None\<rparr>"

fun noPriceFetch :: "provider \<Rightarrow> string \<Rightarrow> response" where
  "noPriceFetch GoogleShopping q = ResultsField [noPriceItem]"
| "noPriceFetch p q = Throws"

definition noPriceStore :: store where
  "noPriceStore =
     \<lparr>store_products = [],
      store_price_history =
        [\<lparr>product_id = pid (googleProduct noPriceItem), hist_price = ''$30'', timestamp = 1\<rparr>,
         \<lparr>product_id = pid (googleProduct noPriceItem), hist_price = ''$31'', timestamp = 2\<rparr>,
         \<lparr>product_id = pid (googleProduct noPriceItem), hist_price = ''$32'', timestamp = 3\<rparr>]\<rparr>"

text \<open>Three prices in the history, read most recent first as 0.10, 0.20, 0.30 and as
  0.30, 0.20, 0.10.\<close>

definition historyDropping :: "price_point list" where
  "historyDropping =
     [\<lparr>product_id = ''x'', hist_price = ''0.30'', timestamp = 1\<rparr>,
      \<lparr>product_id = ''x'', hist_price = ''0.20'', timestamp = 2\<rparr>,
      \<lparr>product_id = ''x'', hist_price = ''0.10'', timestamp = 3\<rparr>]"

definition historyClimbing :: "price_point list" where
  "historyClimbing =
     [\<lparr>product_id = ''x'', hist_price = ''0.10'', timestamp = 1\<rparr>,
      \<lparr>product_id = ''x'', hist_price = ''0.20'', timestamp = 2\<rparr>,
      \<lparr>product_id = ''x'', hist_price = ''0.30'', timestamp = 3\<rparr>]"

text \<open>A value for the parameter \<open>toFixed2\<close>: two decimals of the value, halves
  rounded up.\<close>

function showNat :: "nat \<Rightarrow> string" where
  "showNat n =
     (if n < 10 then [char_of (48 + n)] else showNat (n div 10) @ [char_of (48 + n mod 10)])"
  by pat_completeness auto
termination
  by (relation "measure id") auto

fun toFixedExact :: "jsnum \<Rightarrow> string" where
  "toFixedExact NaN = ''NaN''"
| "toFixedExact PosInf = ''Infinity''"
| "toFixedExact NegInf = ''-Infinity''"
| "toFixedExact (Fin r) =
     (let n = nat \<lfloor>\<bar>r\<bar> * 100 + 1 / 2\<rfloor>
      in (if r < 0 \<and> n \<noteq> 0 then ''-'' else []) @ showNat (n div 100) @ ''.''
           @ [char_of (48 + (n mod 100) div 10), char_of (48 + n mod 10)])"

text \<open>The condition of the reminder in the words of the specification: both prices parse
  to numbers and the parsed last price is at most the parsed reminder price.\<close>

definition priceDropped :: "reminder_row \<Rightarrow> bool" where
  "priceDropped row =
     (case (parsePrice (case rr_last_price row of None \<Rightarrow> [] | Some s \<Rightarrow> s),
            parsePrice (rr_reminder_price row)) of
        (NaN, _) \<Rightarrow> False
      | (_, NaN) \<Rightarrow> False
      | (a, b) \<Rightarrow> js_le a b)"

definition priceDropMail :: "reminder_row \<Rightarrow> email_send" where
  "priceDropMail row =
     \<lparr>mail_to = rr_email row, mail_name = rr_name row, mail_product = rr_title row,
      mail_price = rr_last_price row\<rparr>"

definition cartExample :: "cart_row list" where
  "cartExample =
     [\<lparr>cart_user_id = 1, cart_product_id = ''p1'', reminder_price = Some (rupee @ ''50000''),
       cart_added_at = 10\<rparr>,
      \<lparr>cart_user_id = 2, cart_product_id = ''p1'', reminder_price = Some (rupee @ ''40000''),
       cart_added_at = 11\<rparr>]"

definition productsExample :: "product_row list" where
  "productsExample =
     [\<lparr>prod_id = ''p1'', prod_title = ''Phone'', prod_thumbnail = None,
       prod_link = ''https://shop.example/p1'', prod_source = ''shop'',
       last_price = Some (rupee @ ''45000''), last_updated = 9\<rparr>]"

definition customersExample :: "customer_row list" where
  "customersExample =
     [\<lparr>cust_id = 1, cust_name = ''Asha'', cust_email = ''asha@example.org''\<rparr>,
      \<lparr>cust_id = 2, cust_name = ''Ravi'', cust_email = ''ravi@example.org''\<rparr>]"

definition dropRow :: reminder_row where
  "dropRow =
     \<lparr>rr_user_id = 1, rr_product_id = ''p1'', rr_reminder_price = rupee @ ''50000'',
      rr_title = ''Phone'', rr_last_price = Some (rupee @ ''45000''),
      rr_email = ''asha@example.org'', rr_name = ''Asha''\<rparr>"

definition noDropRow :: reminder_row where
  "noDropRow =
     \<lparr>rr_user_id = 2, rr_product_id = ''p1'', rr_reminder_price = rupee @ ''40000'',
      rr_title = ''Phone'', rr_last_price = Some (rupee @ ''45000''),
      rr_email = ''ravi@example.org'', rr_name = ''Ravi''\<rparr>"

section \<open>Numbers and parsing\<close>

lemma pow2_powi: "pow2 z = 2 powi z"
  by (simp add: pow2_def power_int_def inverse_eq_divide power_one_over)

lemma pow2_pos: "0 < pow2 z"
  by (simp add: pow2_powi)

lemma pow2_add: "pow2 (z + w) = pow2 z * pow2 w"
  by (simp add: pow2_powi power_int_add)

lemma pow2_mono: "z \<le> w \<Longrightarrow> pow2 z \<le> pow2 w"
  by (simp add: pow2_powi power_int_increasing)

lemma pow2_nat: "0 \<le> z \<Longrightarrow> pow2 z = of_int (2 ^ nat z)"
  by (simp add: pow2_def)

lemma bitLength_bounds: "0 < n \<Longrightarrow> 2 ^ (bitLength n - 1) \<le> n \<and> n < 2 ^ bitLength n"
proof (induction n rule: bitLength.induct)
  case (1 n)
  show ?case
  proof (cases "n = 1")
    case True
    have "bitLength 1 = Suc (bitLength 0)" by (subst bitLength.simps) simp
    also have "bitLength 0 = 0" by (subst bitLength.simps) simp
    finally show ?thesis using True by simp
  next
    case False
    with "1.prems" have h: "0 < n div 2" by simp
    with "1.IH" "1.prems" have IH: "2 ^ (bitLength (n div 2) - 1) \<le> n div 2"
      "n div 2 < 2 ^ bitLength (n div 2)" by simp_all
    have bl: "bitLength n = Suc (bitLength (n div 2))"
      using "1.prems" by (subst bitLength.simps) simp
    have pos: "0 < bitLength (n div 2)"
      using h by (subst bitLength.simps) simp
    then obtain j where j: "bitLength (n div 2) = Suc j" by (cases "bitLength (n div 2)") auto
    from IH(1) j have "2 * 2 ^ j \<le> 2 * (n div 2)" by simp
    also have "\<dots> \<le> n" by simp
    finally have lo: "2 ^ (bitLength n - 1) \<le> n" using bl j by simp
    from IH(2) have "n div 2 + 1 \<le> 2 ^ bitLength (n div 2)" by simp
    then have "2 * (n div 2) + 2 \<le> 2 * 2 ^ bitLength (n div 2)" by simp
    moreover have "n < 2 * (n div 2) + 2" by presburger
    ultimately have "n < 2 ^ bitLength n" using bl by simp
    with lo show ?thesis by simp
  qed
qed

lemma floorLog2_le:
  assumes "0 < a"
  shows "pow2 (floorLog2 a) \<le> a"
proof -
  obtain n d where q: "quotient_of a = (n, d)" by (cases "quotient_of a")
  then have a: "a = of_int n / of_int d" and d: "0 < d"
    by (rule quotient_of_div, rule quotient_of_denom_pos)
  from assms a d have n: "0 < n" by (simp add: zero_less_divide_iff)
  let ?k0 = "int (bitLength n) - int (bitLength d)"
  from bitLength_bounds [OF n] have bn: "2 ^ (bitLength n - 1) \<le> n" by simp
  from bitLength_bounds [OF d] have bd: "d \<le> 2 ^ bitLength d" by simp
  have pn: "0 < bitLength n" using n by (subst bitLength.simps) simp
  have "?k0 - 1 = int (bitLength n - 1) + (- int (bitLength d))" using pn by simp
  then have "pow2 (?k0 - 1) = pow2 (int (bitLength n - 1)) * pow2 (- int (bitLength d))"
    by (simp only: pow2_add)
  also have "\<dots> = of_int (2 ^ (bitLength n - 1)) / of_int (2 ^ bitLength d)"
    by (simp add: pow2_def)
  also have "\<dots> \<le> of_int n / of_int d"
  proof -
    have 1: "(0::rat) \<le> of_int n" using n by simp
    have 2: "(of_int (2 ^ (bitLength n - 1)) :: rat) \<le> of_int n"
      using bn by (simp only: of_int_le_iff)
    have 3: "(0::rat) < of_int d" using d by simp
    have 4: "(of_int d :: rat) \<le> of_int (2 ^ bitLength d)"
      using bd by (simp only: of_int_le_iff)
    from 1 2 3 4 show ?thesis by (rule frac_le)
  qed
  finally have low: "pow2 (?k0 - 1) \<le> a" using a by simp
  show ?thesis
    using low q by (simp add: floorLog2_def Let_def)
qed

lemma roundHalfEven_ge_floor: "\<lfloor>s\<rfloor> \<le> roundHalfEven s"
  by (simp add: roundHalfEven_def Let_def)

lemma roundHalfEven_nonneg: "0 \<le> s \<Longrightarrow> 0 \<le> roundHalfEven s"
  using roundHalfEven_ge_floor [of s] by (simp add: order_trans [of 0 "\<lfloor>s\<rfloor>"])

lemma roundHalfEven_pos: "1 \<le> s \<Longrightarrow> 1 \<le> roundHalfEven s"
proof -
  assume "1 \<le> s"
  then have "1 \<le> \<lfloor>s\<rfloor>" by simp
  with roundHalfEven_ge_floor [of s] show ?thesis by linarith
qed

lemma onGrid_scaled:
  assumes "- 1074 \<le> e"
  shows "onGrid (of_int m * pow2 e)"
proof -
  have "pow2 e = pow2 (e + 1074) * pow2 (- 1074)" by (simp add: pow2_add [symmetric])
  also have "pow2 (e + 1074) = of_int (2 ^ nat (e + 1074))" using assms by (simp add: pow2_nat)
  finally have "of_int m * pow2 e = of_int (m * 2 ^ nat (e + 1074)) * pow2 (- 1074)" by simp
  then show ?thesis unfolding onGrid_def by blast
qed

lemma onGrid_minus: "onGrid r \<Longrightarrow> onGrid (- r)"
proof -
  assume "onGrid r"
  then obtain i where "r = of_int i * pow2 (- 1074)" unfolding onGrid_def ..
  then have "- r = of_int (- i) * pow2 (- 1074)" by simp
  then show ?thesis unfolding onGrid_def by blast
qed

lemma onGrid_diff: "onGrid a \<Longrightarrow> onGrid b \<Longrightarrow> onGrid (a - b)"
proof -
  assume "onGrid a" "onGrid b"
  then obtain i j where "a = of_int i * pow2 (- 1074)" "b = of_int j * pow2 (- 1074)"
    unfolding onGrid_def by blast
  then have "a - b = of_int (i - j) * pow2 (- 1074)" by (simp add: algebra_simps)
  then show ?thesis unfolding onGrid_def by blast
qed

lemma onGrid_zero: "onGrid 0"
  unfolding onGrid_def by (rule exI [of _ 0]) simp

lemma onGrid_pos_ge:
  assumes "onGrid a" "0 < a"
  shows "pow2 (- 1074) \<le> a"
proof -
  from assms(1) obtain i where i: "a = of_int i * pow2 (- 1074)" unfolding onGrid_def ..
  with assms(2) pow2_pos [of "- 1074"] have "0 < (of_int i :: rat)"
    by (simp add: zero_less_mult_iff)
  then have "1 \<le> (of_int i :: rat)" by simp
  then have "1 * pow2 (- 1074) \<le> of_int i * pow2 (- 1074)"
    using pow2_pos [of "- 1074"] by (simp only: mult_le_cancel_right) simp
  with i show ?thesis by simp
qed

text \<open>The shape of a rounded value.\<close>

lemma round64_nonneg:
  assumes "0 \<le> q"
  shows "round64 q = PosInf \<or> (\<exists>r. round64 q = Fin r \<and> 0 \<le> r \<and> onGrid r)"
proof (cases "q = 0")
  case True
  then show ?thesis by (simp add: round64_def onGrid_zero)
next
  case False
  with assms have pos: "0 < q" by simp
  let ?e = "max (floorLog2 \<bar>q\<bar> - 52) (- 1074)"
  let ?m = "roundHalfEven (\<bar>q\<bar> / pow2 ?e)"
  have "0 \<le> \<bar>q\<bar> / pow2 ?e" using pow2_pos [of ?e] by simp
  then have m: "0 \<le> ?m" by (rule roundHalfEven_nonneg)
  have g: "onGrid (of_int ?m * pow2 ?e)" by (rule onGrid_scaled) simp
  have nn: "0 \<le> of_int ?m * pow2 ?e" using m pow2_pos [of ?e] by simp
  have "round64 q = PosInf \<or> round64 q = Fin (of_int ?m * pow2 ?e)"
    using pos by (simp add: round64_def Let_def)
  with g nn show ?thesis by blast
qed

lemma round64_negative:
  assumes "onGrid q" "q < 0"
  shows "round64 q = NegInf \<or> (\<exists>r. round64 q = Fin r \<and> r < 0)"
proof -
  let ?a = "\<bar>q\<bar>"
  let ?e = "max (floorLog2 ?a - 52) (- 1074)"
  let ?m = "roundHalfEven (?a / pow2 ?e)"
  from assms have a: "0 < ?a" "onGrid ?a" using onGrid_minus [of q] by simp_all
  have "pow2 ?e \<le> ?a"
  proof (cases "floorLog2 ?a - 52 \<le> - 1074")
    case True
    then have "?e = - 1074" by simp
    with onGrid_pos_ge [OF a(2) a(1)] show ?thesis by simp
  next
    case False
    then have "?e = floorLog2 ?a - 52" by simp
    then have "pow2 ?e \<le> pow2 (floorLog2 ?a)" by (simp add: pow2_mono)
    also have "\<dots> \<le> ?a" using a(1) by (rule floorLog2_le)
    finally show ?thesis .
  qed
  then have "1 \<le> ?a / pow2 ?e" using pow2_pos [of ?e] by (simp add: le_divide_eq)
  then have "1 \<le> ?m" by (rule roundHalfEven_pos)
  then have "0 < (of_int ?m :: rat) * pow2 ?e" using pow2_pos [of ?e] by simp
  moreover have "round64 q = NegInf \<or> round64 q = Fin (- (of_int ?m * pow2 ?e))"
    using assms(2) by (simp add: round64_def Let_def)
  ultimately show ?thesis by auto
qed

lemma round64_negative_iff: "onGrid q \<Longrightarrow> js_lt (round64 q) (Fin 0) \<longleftrightarrow> q < 0"
proof
  assume g: "onGrid q" and "js_lt (round64 q) (Fin 0)"
  show "q < 0"
  proof (rule ccontr)
    assume "\<not> q < 0"
    then have "0 \<le> q" by simp
    from round64_nonneg [OF this] \<open>js_lt (round64 q) (Fin 0)\<close> show False by auto
  qed
next
  assume "onGrid q" "q < 0"
  from round64_negative [OF this] show "js_lt (round64 q) (Fin 0)" by auto
qed

lemma js_sub_negative_iff:
  "onGrid a \<Longrightarrow> onGrid b \<Longrightarrow> js_lt (js_sub (Fin a) (Fin b)) (Fin 0) \<longleftrightarrow> a < b"
  using round64_negative_iff [of "a - b"] onGrid_diff [of a b] by (simp add: js_sub_def)

lemma decimal_acc_nonneg:
  "(0::rat) \<le> acc \<Longrightarrow> 0 \<le> foldl (\<lambda>acc c. 10 * acc + of_nat (digitVal c)) acc ds"
  by (induction ds arbitrary: acc) simp_all

lemma decimal_nonneg: "0 \<le> decimal ds"
  unfolding decimal_def by (rule decimal_acc_nonneg) simp

lemma parseFloat_cases:
  "parseFloat s = NaN \<or> parseFloat s = PosInf \<or>
   (\<exists>r. parseFloat s = Fin r \<and> 0 \<le> r \<and> onGrid r)"
proof (cases "parseFloat s = NaN")
  case True
  then show ?thesis by simp
next
  case False
  then obtain ip fp where "parseFloat s = round64 (decimal ip + decimal fp / 10 ^ length fp)"
    unfolding parseFloat_def Let_def by (auto split: if_splits)
  moreover have "0 \<le> decimal ip + decimal fp / 10 ^ length fp"
    using decimal_nonneg [of ip] decimal_nonneg [of fp] by simp
  ultimately show ?thesis using round64_nonneg by auto
qed

lemma parsePrice_cases:
  "parsePrice s = NaN \<or> parsePrice s = PosInf \<or>
   (\<exists>r. parsePrice s = Fin r \<and> 0 \<le> r \<and> onGrid r)"
  unfolding parsePrice_def by (rule parseFloat_cases)

text \<open>Roundings to binary64: one tenth and its negation, and two ties between
  neighbouring values, which go to the even mantissa.\<close>

lemma round64_examples:
  "round64 (1 / 10) = Fin (3602879701896397 / 36028797018963968)"
  "round64 (- (1 / 10)) = Fin (- (3602879701896397 / 36028797018963968))"
  "round64 (9007199254740993 / 9007199254740992) = Fin 1"
  "round64 (9007199254740995 / 9007199254740992) = Fin (2251799813685249 / 2251799813685248)"
  by code_simp+

section \<open>The trend classifier\<close>

lemma js_le_NaN_right: "js_le x NaN = False"
  by (cases x) simp_all

lemma js_lt_NaN_right: "js_lt x NaN = False"
  by (cases x) simp_all

lemma js_le_refl: "\<not> js_isNaN a \<Longrightarrow> js_le a a"
  by (cases a) simp_all

lemma js_le_trans: "js_le a b \<Longrightarrow> js_le b c \<Longrightarrow> js_le a c"
  by (cases a; cases b; cases c) simp_all

lemma js_le_antisym: "js_le a b \<Longrightarrow> js_le b a \<Longrightarrow> a = b"
  by (cases a; cases b) simp_all

lemma js_lt_imp_le: "js_lt a b \<Longrightarrow> js_le a b"
  by (cases a; cases b) simp_all

lemma not_js_lt_imp_le: "\<not> js_isNaN a \<Longrightarrow> \<not> js_isNaN b \<Longrightarrow> \<not> js_lt b a \<Longrightarrow> js_le a b"
  by (cases a; cases b) simp_all

lemma takeWhile_no_digit: "\<forall>c\<in>set t. \<not> isDigit c \<Longrightarrow> takeWhile isDigit t = []"
  by (cases t) auto

lemma parsePrice_no_digit:
  assumes "\<forall>c\<in>set cp. \<not> isDigit c"
  shows "parsePrice cp = NaN"
proof -
  let ?s = "stripNonNumeric cp"
  have nd: "\<forall>c\<in>set ?s. \<not> isDigit c"
    using assms by (simp add: stripNonNumeric_def)
  have 1: "takeWhile isDigit ?s = []"
    using nd by (rule takeWhile_no_digit)
  have 2: "dropWhile isDigit ?s = ?s"
    using nd by (cases ?s) auto
  show ?thesis
  proof (cases ?s)
    case Nil
    then show ?thesis by (simp add: parsePrice_def parseFloat_def)
  next
    case (Cons c t)
    then have "\<forall>c\<in>set t. \<not> isDigit c" using nd by simp
    then have "takeWhile isDigit t = []" by (rule takeWhile_no_digit)
    then show ?thesis using 1 2 Cons by (simp add: parsePrice_def parseFloat_def)
  qed
qed

lemma parsedPrices_numbers: "\<forall>p\<in>set (parsedPrices rows). \<not> js_isNaN p"
  by (simp add: parsedPrices_def)

lemma length_parsedPrices: "length (parsedPrices rows) \<le> length rows"
  unfolding parsedPrices_def using length_filter_le [of _ "map parsePrice rows"] by simp

lemma length_selectRecentPrices: "length (selectRecentPrices tbl p) \<le> 5"
  by (simp add: selectRecentPrices_def)

text \<open>\<open>Math.min\<close> and \<open>Math.max\<close> of numbers are the least and the greatest of them.\<close>

lemma js_min2_props:
  assumes "\<not> js_isNaN a" "\<not> js_isNaN b"
  shows "\<not> js_isNaN (js_min2 a b)" "js_min2 a b = a \<or> js_min2 a b = b"
    "js_le (js_min2 a b) a" "js_le (js_min2 a b) b"
  using assms by (simp_all add: js_min2_def js_le_refl js_lt_imp_le not_js_lt_imp_le)

lemma js_max2_props:
  assumes "\<not> js_isNaN a" "\<not> js_isNaN b"
  shows "\<not> js_isNaN (js_max2 a b)" "js_max2 a b = a \<or> js_max2 a b = b"
    "js_le a (js_max2 a b)" "js_le b (js_max2 a b)"
  using assms by (simp_all add: js_max2_def js_le_refl js_lt_imp_le not_js_lt_imp_le)

lemma foldl_js_min2:
  assumes "\<not> js_isNaN acc" "\<forall>x\<in>set xs. \<not> js_isNaN x"
  shows "\<not> js_isNaN (foldl js_min2 acc xs) \<and>
    (foldl js_min2 acc xs = acc \<or> foldl js_min2 acc xs \<in> set xs) \<and>
    js_le (foldl js_min2 acc xs) acc \<and> (\<forall>x\<in>set xs. js_le (foldl js_min2 acc xs) x)"
  using assms
proof (induction xs arbitrary: acc)
  case Nil
  then show ?case by (simp add: js_le_refl)
next
  case (Cons x xs)
  let ?a = "js_min2 acc x"
  let ?m = "foldl js_min2 ?a xs"
  from Cons.prems have n: "\<not> js_isNaN acc" "\<not> js_isNaN x" "\<forall>y\<in>set xs. \<not> js_isNaN y"
    by simp_all
  note p = js_min2_props [OF n(1,2)]
  from Cons.IH [OF p(1) n(3)] have IH: "\<not> js_isNaN ?m" "?m = ?a \<or> ?m \<in> set xs"
    "js_le ?m ?a" "\<forall>y\<in>set xs. js_le ?m y" by simp_all
  have "js_le ?m acc" using IH(3) p(3) by (rule js_le_trans)
  moreover have "js_le ?m x" using IH(3) p(4) by (rule js_le_trans)
  moreover have "?m = acc \<or> ?m \<in> set (x # xs)" using IH(2) p(2) by auto
  ultimately show ?case using IH(1,4) by simp
qed

lemma foldl_js_max2:
  assumes "\<not> js_isNaN acc" "\<forall>x\<in>set xs. \<not> js_isNaN x"
  shows "\<not> js_isNaN (foldl js_max2 acc xs) \<and>
    (foldl js_max2 acc xs = acc \<or> foldl js_max2 acc xs \<in> set xs) \<and>
    js_le acc (foldl js_max2 acc xs) \<and> (\<forall>x\<in>set xs. js_le x (foldl js_max2 acc xs))"
  using assms
proof (induction xs arbitrary: acc)
  case Nil
  then show ?case by (simp add: js_le_refl)
next
  case (Cons x xs)
  let ?a = "js_max2 acc x"
  let ?m = "foldl js_max2 ?a xs"
  from Cons.prems have n: "\<not> js_isNaN acc" "\<not> js_isNaN x" "\<forall>y\<in>set xs. \<not> js_isNaN y"
    by simp_all
  note p = js_max2_props [OF n(1,2)]
  from Cons.IH [OF p(1) n(3)] have IH: "\<not> js_isNaN ?m" "?m = ?a \<or> ?m \<in> set xs"
    "js_le ?a ?m" "\<forall>y\<in>set xs. js_le y ?m" by simp_all
  have "js_le acc ?m" using p(3) IH(3) by (rule js_le_trans)
  moreover have "js_le x ?m" using p(4) IH(3) by (rule js_le_trans)
  moreover have "?m = acc \<or> ?m \<in> set (x # xs)" using IH(2) p(2) by auto
  ultimately show ?case using IH(1,4) by simp
qed

lemma Math_min_minimum:
  assumes "xs \<noteq> []" "\<forall>x\<in>set xs. \<not> js_isNaN x"
  shows "isMinimumOf (Math_min xs) xs"
proof -
  let ?m = "foldl js_min2 PosInf xs"
  from foldl_js_min2 [of PosInf xs] assms(2)
  have m: "?m = PosInf \<or> ?m \<in> set xs" "\<forall>x\<in>set xs. js_le ?m x" by simp_all
  have "?m \<in> set xs"
  proof (cases "?m \<in> set xs")
    case True
    then show ?thesis .
  next
    case False
    with m(1) have inf: "?m = PosInf" by simp
    from assms(1) obtain x where x: "x \<in> set xs" by (cases xs) auto
    with m(2) inf have "js_le PosInf x" by simp
    then have "x = PosInf" by (cases x) simp_all
    with x inf show ?thesis by simp
  qed
  with m(2) show ?thesis by (simp add: isMinimumOf_def Math_min_def)
qed

lemma Math_max_maximum:
  assumes "xs \<noteq> []" "\<forall>x\<in>set xs. \<not> js_isNaN x"
  shows "isMaximumOf (Math_max xs) xs"
proof -
  let ?m = "foldl js_max2 NegInf xs"
  from foldl_js_max2 [of NegInf xs] assms(2)
  have m: "?m = NegInf \<or> ?m \<in> set xs" "\<forall>x\<in>set xs. js_le x ?m" by simp_all
  have "?m \<in> set xs"
  proof (cases "?m \<in> set xs")
    case True
    then show ?thesis .
  next
    case False
    with m(1) have inf: "?m = NegInf" by simp
    from assms(1) obtain x where x: "x \<in> set xs" by (cases xs) auto
    with m(2) inf have "js_le x NegInf" by simp
    then have "x = NegInf" by (cases x) simp_all
    with x inf show ?thesis by simp
  qed
  with m(2) show ?thesis by (simp add: isMaximumOf_def Math_max_def)
qed

lemma minimum_unique: "isMinimumOf m xs \<Longrightarrow> isMinimumOf m' xs \<Longrightarrow> m = m'"
  unfolding isMinimumOf_def by (blast intro: js_le_antisym)

lemma maximum_unique: "isMaximumOf m xs \<Longrightarrow> isMaximumOf m' xs \<Longrightarrow> m = m'"
  unfolding isMaximumOf_def by (blast intro: js_le_antisym)

lemma prediction_enough:
  assumes "db p = Rows rows" "3 \<le> length (parsedPrices rows)"
    "isMinimumOf mn (parsedPrices rows)" "isMaximumOf mx (parsedPrices rows)"
  shows "getPricePrediction db p (Some cp) =
    Some (branchSequence mn mx (averageOf (parsedPrices rows)) (parsePrice cp))"
proof -
  let ?ps = "parsedPrices rows"
  have ne: "?ps \<noteq> []" using assms(2) by auto
  have len: "\<not> length rows < 3" using assms(2) length_parsedPrices [of rows] by linarith
  have "isMinimumOf (Math_min ?ps) ?ps"
    using ne parsedPrices_numbers by (rule Math_min_minimum)
  then have mn: "Math_min ?ps = mn" using assms(3) by (rule minimum_unique)
  have "isMaximumOf (Math_max ?ps) ?ps"
    using ne parsedPrices_numbers by (rule Math_max_maximum)
  then have mx: "Math_max ?ps = mx" using assms(4) by (rule maximum_unique)
  have "getPricePrediction db p (Some cp) =
      Some (branchSequence (Math_min ?ps) (Math_max ?ps) (averageOf ?ps) (parsePrice cp))"
    using assms(1,2) len
    by (simp add: getPricePrediction_def parsedPrices_def [symmetric] branchSequence_def
        averageOf_def Let_def)
  then show ?thesis by (simp only: mn mx)
qed

lemma prediction_few:
  assumes "db p = Rows rows" "length (parsedPrices rows) < 3"
  shows "getPricePrediction db p cur = Some Neutral"
  using assms by (simp add: getPricePrediction_def parsedPrices_def [symmetric] Let_def)

lemma prediction_nan:
  assumes "db p = Rows rows" "3 \<le> length (parsedPrices rows)" "parsePrice cp = NaN"
  shows "getPricePrediction db p (Some cp) = Some Neutral"
proof -
  have len: "\<not> length rows < 3" using assms(2) length_parsedPrices [of rows] by linarith
  show ?thesis
    using assms len
    by (simp add: getPricePrediction_def parsedPrices_def [symmetric] Let_def js_ge_def
        js_gt_def js_le_NaN_right js_lt_NaN_right)
qed

lemma prediction_None_iff:
  "getPricePrediction db p cur = None \<longleftrightarrow>
     cur = None \<and> (\<exists>rows. db p = Rows rows \<and> 3 \<le> length (parsedPrices rows))"
proof (cases "db p")
  case QueryError
  then show ?thesis by (simp add: getPricePrediction_def)
next
  case (Rows rows)
  show ?thesis
  proof (cases "3 \<le> length (parsedPrices rows)")
    case True
    then have "\<not> length rows < 3" using length_parsedPrices [of rows] by linarith
    with True Rows show ?thesis
      by (cases cur)
        (simp_all add: getPricePrediction_def parsedPrices_def [symmetric] Let_def)
  next
    case False
    then have "length (parsedPrices rows) < 3" by simp
    with Rows have "getPricePrediction db p cur = Some Neutral" by (rule prediction_few)
    with False Rows show ?thesis by simp
  qed
qed

text \<open>
  Claim C2, as stated, fails: the classification is not a function of the minimum, the
  maximum and the mean of the parsed history. The two histories hold the same three
  prices, read as 0.10, 0.20, 0.30 and as 0.30, 0.20, 0.10; with the current price 0.1960
  the branches over minimum, maximum and mean in exact arithmetic give neutral, and
  server.js answers buy for the first history and neutral for the second, because the
  binary64 sum depends on the order of the rows.
\<close>

theorem trend_classifier_mean_counterexample:
  "mset (selectRecentPrices historyDropping ''x'') = mset (selectRecentPrices historyClimbing ''x'') \<and>
   parsePrice ''0.1960'' = Fin (3530822107858469 / 18014398509481984) \<and>
   classifySpec (parsedHistory (selectRecentPrices historyDropping ''x''))
     (3530822107858469 / 18014398509481984) = Neutral \<and>
   getPricePrediction (db_all_price_history historyDropping) ''x'' (Some ''0.1960'') = Some Buy \<and>
   getPricePrediction (db_all_price_history historyClimbing) ''x'' (Some ''0.1960'')
     = Some Neutral"
  by code_simp

text \<open>
  Claim C2, amended. The query returns at most five rows. When at least three of them
  parse to a number, the classifier returns the first matching branch of: \<open>c \<le> min * 1.05\<close>
  gives buy, \<open>c \<ge> max * 0.95\<close> gives wait, \<open>c < avg * 0.98\<close> gives buy, \<open>c > avg * 1.02\<close>
  gives wait, otherwise neutral, where \<open>c\<close> is the parsed current price, \<open>min\<close> and \<open>max\<close>
  are the least and the greatest parsed row, \<open>avg\<close> is the binary64 sum of the parsed rows
  in the order of the query divided by their count, and the products are binary64
  products. When fewer than three rows parse, it returns neutral whatever the current
  price is, absent prices included.
\<close>

theorem trend_classifier_branch_order:
  "length (selectRecentPrices tbl p) \<le> 5 \<and>
   (3 \<le> length (parsedPrices (selectRecentPrices tbl p)) \<and>
    isMinimumOf mn (parsedPrices (selectRecentPrices tbl p)) \<and>
    isMaximumOf mx (parsedPrices (selectRecentPrices tbl p)) \<longrightarrow>
      getPricePrediction (db_all_price_history tbl) p (Some cp) =
        Some (branchSequence mn mx (averageOf (parsedPrices (selectRecentPrices tbl p)))
                (parsePrice cp))) \<and>
   (length (parsedPrices (selectRecentPrices tbl p)) < 3 \<longrightarrow>
      getPricePrediction (db_all_price_history tbl) p cur = Some Neutral)"
  using length_selectRecentPrices [of tbl p]
    prediction_enough [of "db_all_price_history tbl" p "selectRecentPrices tbl p" mn mx cp]
    prediction_few [of "db_all_price_history tbl" p "selectRecentPrices tbl p" cur]
  by (simp add: db_all_price_history_def)

lemma historyExample_parsed:
  "parsedPrices (selectRecentPrices historyExample ''x'') = [Fin 50, Fin 100, Fin 100]"
  by code_simp

lemma empty_history_parsed: "parsedPrices (selectRecentPrices [] ''x'') = []"
  by code_simp

lemma historyExample_branch:
  "branchSequence (Fin 50) (Fin 100) (averageOf [Fin 50, Fin 100, Fin 100]) (parsePrice ''96'')
     = Wait"
  by code_simp

theorem trend_classifier_branch_order_witness:
  "getPricePrediction (db_all_price_history historyExample) ''x'' (Some ''96'') = Some Wait \<and>
   getPricePrediction (db_all_price_history []) ''x'' None = Some Neutral"
  using trend_classifier_branch_order [of historyExample "''x''" "Fin 50" "Fin 100" "''96''" None]
    trend_classifier_branch_order [of "[]" "''x''" "Fin 50" "Fin 100" "''96''" None]
  by (simp add: historyExample_parsed empty_history_parsed historyExample_branch
      isMinimumOf_def isMaximumOf_def)

text \<open>
  Claim C10. With at least three parseable rows in the history, a current price string
  without any digit parses to NaN and the classifier returns neutral.
\<close>

theorem trend_classifier_nan_neutral:
  assumes "3 \<le> length (parsedPrices (selectRecentPrices tbl p))"
    and "\<forall>ch\<in>set cp. \<not> isDigit ch"
  shows "parsePrice cp = NaN \<and>
    getPricePrediction (db_all_price_history tbl) p (Some cp) = Some Neutral"
  using assms parsePrice_no_digit [of cp]
    prediction_nan [of "db_all_price_history tbl" p "selectRecentPrices tbl p" cp]
  by (simp add: db_all_price_history_def)

lemma free_has_no_digit: "\<forall>ch\<in>set ''free''. \<not> isDigit ch"
  by code_simp

theorem trend_classifier_nan_neutral_witness:
  "getPricePrediction (db_all_price_history historyExample) ''x'' (Some ''free'') = Some Neutral"
  using trend_classifier_nan_neutral [of historyExample "''x''" "''free''"]
  by (simp add: historyExample_parsed free_has_no_digit)

text \<open>A current price at the floor of the recent history is a buy; three rows of 3.80
  with the current price 3.99 are a wait, since the binary64 product of 3.80 and 1.05 is
  below 3.99.\<close>

lemma classifier_floor_example:
  "getPricePrediction (\<lambda>p. Rows [''100'', ''100'', ''100'']) ''x'' (Some ''94'') = Some Buy"
  by code_simp

lemma classifier_rounding_example:
  "getPricePrediction (\<lambda>p. Rows [''3.80'', ''3.80'', ''3.80'']) ''x'' (Some ''3.99'') = Some Wait"
  by code_simp

section \<open>The ranker\<close>

lemma mset_insertBy: "mset (insertBy cmp x ys) = add_mset x (mset ys)"
  by (induction ys) simp_all

lemma mset_array_sort: "mset (array_sort cmp xs) = mset xs"
  by (induction xs) (simp_all add: array_sort_def mset_insertBy)

lemma set_insertBy: "set (insertBy cmp x ys) = insert x (set ys)"
  by (induction ys) auto

text \<open>For a comparison function whose negative results form a strict weak order, the
  result of \<open>array_sort\<close> is ordered, and an ordered list is left as it is.\<close>

lemma sorted_insertBy:
  assumes asym: "\<And>a b. js_lt (cmp a b) (Fin 0) \<Longrightarrow> \<not> js_lt (cmp b a) (Fin 0)"
    and negtrans: "\<And>a b c. js_lt (cmp a c) (Fin 0) \<Longrightarrow>
           js_lt (cmp a b) (Fin 0) \<or> js_lt (cmp b c) (Fin 0)"
    and "sorted_wrt (\<lambda>a b. \<not> js_lt (cmp b a) (Fin 0)) ys"
  shows "sorted_wrt (\<lambda>a b. \<not> js_lt (cmp b a) (Fin 0)) (insertBy cmp x ys)"
  using assms(3)
proof (induction ys)
  case Nil
  show ?case by simp
next
  case (Cons y ys)
  show ?case
  proof (cases "js_lt (cmp y x) (Fin 0)")
    case True
    then have "\<not> js_lt (cmp x y) (Fin 0)" by (rule asym)
    with True Cons show ?thesis by (auto simp: set_insertBy)
  next
    case False
    have "\<not> js_lt (cmp z x) (Fin 0)" if "z \<in> set ys" for z
    proof
      assume "js_lt (cmp z x) (Fin 0)"
      then have "js_lt (cmp z y) (Fin 0) \<or> js_lt (cmp y x) (Fin 0)" by (rule negtrans)
      with False that Cons.prems show False by auto
    qed
    with False Cons.prems show ?thesis by auto
  qed
qed

lemma sorted_array_sort:
  assumes asym: "\<And>a b. js_lt (cmp a b) (Fin 0) \<Longrightarrow> \<not> js_lt (cmp b a) (Fin 0)"
    and negtrans: "\<And>a b c. js_lt (cmp a c) (Fin 0) \<Longrightarrow>
           js_lt (cmp a b) (Fin 0) \<or> js_lt (cmp b c) (Fin 0)"
  shows "sorted_wrt (\<lambda>a b. \<not> js_lt (cmp b a) (Fin 0)) (array_sort cmp xs)"
proof (induction xs)
  case Nil
  show ?case by (simp add: array_sort_def)
next
  case (Cons x xs)
  have "array_sort cmp (x # xs) = insertBy cmp x (array_sort cmp xs)"
    by (simp add: array_sort_def)
  with Cons sorted_insertBy [of cmp "array_sort cmp xs" x, OF asym negtrans] show ?case
    by simp
qed

lemma array_sort_sorted_id:
  "sorted_wrt (\<lambda>a b. \<not> js_lt (cmp b a) (Fin 0)) xs \<Longrightarrow> array_sort cmp xs = xs"
proof (induction xs)
  case Nil
  show ?case by (simp add: array_sort_def)
next
  case (Cons x xs)
  then have "array_sort cmp xs = xs" by simp
  then have "array_sort cmp (x # xs) = insertBy cmp x xs" by (simp add: array_sort_def)
  with Cons.prems show ?case by (cases xs) auto
qed

lemma js_lt_asym: "js_lt a b \<Longrightarrow> \<not> js_lt b a"
  by (cases a; cases b) simp_all

lemma js_lt_negtrans: "\<not> js_isNaN b \<Longrightarrow> js_lt a c \<Longrightarrow> js_lt a b \<or> js_lt b c"
  by (cases a; cases b; cases c) auto

lemma sortPrice_cases: "sortPrice a = PosInf \<or> (\<exists>r. sortPrice a = Fin r \<and> onGrid r)"
proof -
  let ?s = "case price a of None \<Rightarrow> [] | Some s \<Rightarrow> s"
  consider "parsePrice ?s = NaN" | "parsePrice ?s = PosInf"
    | r where "parsePrice ?s = Fin r" "onGrid r"
    using parsePrice_cases [of ?s] by blast
  then show ?thesis
  proof cases
    case 1
    then show ?thesis by (simp add: sortPrice_def js_or_def)
  next
    case 2
    then show ?thesis by (simp add: sortPrice_def js_or_def)
  next
    case 3
    then show ?thesis by (cases "r = 0") (simp_all add: sortPrice_def js_or_def)
  qed
qed

lemma sortPrice_number: "\<not> js_isNaN (sortPrice a)"
  using sortPrice_cases [of a] by auto

text \<open>The sign of the difference of two sort prices is that of their comparison: binary64
  subtraction of two different numbers never gives zero.\<close>

lemma sortPrice_difference_negative_iff:
  "js_lt (js_sub (sortPrice a) (sortPrice b)) (Fin 0) \<longleftrightarrow> js_lt (sortPrice a) (sortPrice b)"
proof -
  consider "sortPrice a = PosInf" "sortPrice b = PosInf"
    | r where "sortPrice a = PosInf" "sortPrice b = Fin r"
    | r where "sortPrice a = Fin r" "sortPrice b = PosInf"
    | r r' where "sortPrice a = Fin r" "onGrid r" "sortPrice b = Fin r'" "onGrid r'"
    using sortPrice_cases [of a] sortPrice_cases [of b] by blast
  then show ?thesis
  proof cases
    case 1
    then show ?thesis by (simp add: js_sub_def)
  next
    case 2
    then show ?thesis by (simp add: js_sub_def)
  next
    case 3
    then show ?thesis by (simp add: js_sub_def)
  next
    case 4
    then show ?thesis using js_sub_negative_iff [of r r'] by simp
  qed
qed

lemma compareProducts_negative_iff:
  "js_lt (compareProducts qws a b) (Fin 0) \<longleftrightarrow>
     (isRelevant qws (title a) \<and> \<not> isRelevant qws (title b)) \<or>
     (isRelevant qws (title a) = isRelevant qws (title b) \<and>
        js_lt (sortPrice a) (sortPrice b))"
  using sortPrice_difference_negative_iff [of a b]
  by (simp add: compareProducts_def Let_def)

lemma compareProducts_asym:
  "js_lt (compareProducts qws a b) (Fin 0) \<Longrightarrow> \<not> js_lt (compareProducts qws b a) (Fin 0)"
  unfolding compareProducts_negative_iff
  using js_lt_asym [of "sortPrice a" "sortPrice b"] by blast

lemma compareProducts_negtrans:
  "js_lt (compareProducts qws a c) (Fin 0) \<Longrightarrow>
     js_lt (compareProducts qws a b) (Fin 0) \<or> js_lt (compareProducts qws b c) (Fin 0)"
  unfolding compareProducts_negative_iff
  using js_lt_negtrans [OF sortPrice_number [of b], of "sortPrice a" "sortPrice c"] by blast

text \<open>The order of the output: a relevant item never follows a non-relevant one, and
  among items of equal relevance the price used for sorting never decreases.\<close>

lemma ranker_ordered:
  "sorted_wrt
     (\<lambda>a b. \<not> (isRelevant (queryWords q) (title b) \<and> \<not> isRelevant (queryWords q) (title a)) \<and>
            (isRelevant (queryWords q) (title a) = isRelevant (queryWords q) (title b) \<longrightarrow>
               \<not> js_lt (sortPrice b) (sortPrice a)))
     (filterAndSortProducts ps q)"
proof -
  have "sorted_wrt (\<lambda>a b. \<not> js_lt (compareProducts (queryWords q) b a) (Fin 0))
          (array_sort (compareProducts (queryWords q)) ps)"
    by (rule sorted_array_sort) (erule compareProducts_asym, erule compareProducts_negtrans)
  then show ?thesis
    unfolding filterAndSortProducts_def compareProducts_negative_iff
    by (rule sorted_wrt_mono_rel [rotated]) blast
qed

text \<open>Stability: the items that the comparison function does not tell apart from a
  given item keep their input order.\<close>

lemma stable_insertBy:
  assumes negtrans: "\<And>a b c. js_lt (cmp a c) (Fin 0) \<Longrightarrow>
           js_lt (cmp a b) (Fin 0) \<or> js_lt (cmp b c) (Fin 0)"
  shows "filter (\<lambda>z. \<not> js_lt (cmp z k) (Fin 0) \<and> \<not> js_lt (cmp k z) (Fin 0)) (insertBy cmp x ys) =
     (if \<not> js_lt (cmp x k) (Fin 0) \<and> \<not> js_lt (cmp k x) (Fin 0)
      then x # filter (\<lambda>z. \<not> js_lt (cmp z k) (Fin 0) \<and> \<not> js_lt (cmp k z) (Fin 0)) ys
      else filter (\<lambda>z. \<not> js_lt (cmp z k) (Fin 0) \<and> \<not> js_lt (cmp k z) (Fin 0)) ys)"
proof (induction ys)
  case Nil
  show ?case by simp
next
  case (Cons y ys)
  show ?case
  proof (cases "js_lt (cmp y x) (Fin 0)")
    case True
    then have "js_lt (cmp y k) (Fin 0) \<or> js_lt (cmp k x) (Fin 0)" by (rule negtrans)
    with True Cons show ?thesis by auto
  next
    case False
    then show ?thesis by simp
  qed
qed

lemma stable_array_sort:
  assumes negtrans: "\<And>a b c. js_lt (cmp a c) (Fin 0) \<Longrightarrow>
           js_lt (cmp a b) (Fin 0) \<or> js_lt (cmp b c) (Fin 0)"
  shows "filter (\<lambda>z. \<not> js_lt (cmp z k) (Fin 0) \<and> \<not> js_lt (cmp k z) (Fin 0)) (array_sort cmp xs) =
     filter (\<lambda>z. \<not> js_lt (cmp z k) (Fin 0) \<and> \<not> js_lt (cmp k z) (Fin 0)) xs"
proof (induction xs)
  case Nil
  show ?case by (simp add: array_sort_def)
next
  case (Cons x xs)
  have "array_sort cmp (x # xs) = insertBy cmp x (array_sort cmp xs)"
    by (simp add: array_sort_def)
  with Cons stable_insertBy [of cmp k x "array_sort cmp xs", OF negtrans] show ?case
    by simp
qed

lemma ranker_stable:
  "filter (\<lambda>z. \<not> js_lt (compareProducts (queryWords q) z k) (Fin 0) \<and>
               \<not> js_lt (compareProducts (queryWords q) k z) (Fin 0))
     (filterAndSortProducts ps q) =
   filter (\<lambda>z. \<not> js_lt (compareProducts (queryWords q) z k) (Fin 0) \<and>
               \<not> js_lt (compareProducts (queryWords q) k z) (Fin 0)) ps"
  unfolding filterAndSortProducts_def
  by (rule stable_array_sort) (erule compareProducts_negtrans)

text \<open>
  Claim C7. The ranker returns a permutation of its input, and ranking its own output
  again with the same query changes nothing.
\<close>

theorem ranker_permutation_idempotent:
  "mset (filterAndSortProducts ps q) = mset ps \<and>
   filterAndSortProducts (filterAndSortProducts ps q) q = filterAndSortProducts ps q"
proof
  show "mset (filterAndSortProducts ps q) = mset ps"
    by (simp add: filterAndSortProducts_def mset_array_sort)
  have "sorted_wrt (\<lambda>a b. \<not> js_lt (compareProducts (queryWords q) b a) (Fin 0))
          (array_sort (compareProducts (queryWords q)) ps)"
    by (rule sorted_array_sort) (erule compareProducts_asym, erule compareProducts_negtrans)
  then show "filterAndSortProducts (filterAndSortProducts ps q) q = filterAndSortProducts ps q"
    unfolding filterAndSortProducts_def by (rule array_sort_sorted_id)
qed

text \<open>
  Claim C6, as stated, fails: for the query \<open>iphone 15\<close> the ranker does not put
  \<open>Samsung S25\<close> before \<open>iPhone 15 case\<close>.
\<close>

theorem ranker_example_counterexample:
  "map title (filterAndSortProducts rankExample ''iphone 15'') \<noteq>
     [''iPhone 15 Pro'', ''Samsung S25'', ''iPhone 15 case'']"
  by code_simp

text \<open>
  Claim C6, amended. For the query \<open>iphone 15\<close> and the titles \<open>iPhone 15 Pro\<close>,
  \<open>iPhone 15 case\<close>, \<open>Samsung S25\<close> with prices 80000, 500, 70000 the ranker returns
  \<open>iPhone 15 Pro\<close>, then \<open>iPhone 15 case\<close>, then \<open>Samsung S25\<close>: the one relevant item
  first, the two others by ascending price.
\<close>

theorem ranker_example_order:
  "map title (filterAndSortProducts rankExample ''iphone 15'') =
     [''iPhone 15 Pro'', ''iPhone 15 case'', ''Samsung S25'']"
  by code_simp

text \<open>
  Claim C3 at a price of zero. Both items are relevant for the query \<open>phone\<close>, their
  prices parse to 0 and to 5, and the ranker puts the item priced 5 first: the zero is
  falsy, so \<open>sortPrice\<close> replaces it by Infinity.
\<close>

theorem ranker_zero_price_sorts_last:
  "isRelevant (queryWords ''phone'') ''phone a'' \<and>
   isRelevant (queryWords ''phone'') ''phone b'' \<and>
   parsePrice ''0'' = Fin 0 \<and> parsePrice ''5'' = Fin 5 \<and>
   sortPrice (listing ''phone a'' ''0'') = PosInf \<and>
   map title (filterAndSortProducts zeroPriceExample ''phone'') = [''phone b'', ''phone a'']"
  by code_simp

section \<open>Product identity\<close>

lemma digits_eq:
  assumes "x < k" "x' < k" "m * k + x = m' * k + x'"
  shows "m = m' \<and> x = (x'::nat)"
proof -
  have "(m * k + x) div k = m" "(m' * k + x') div k = m'" using assms(1,2) by simp_all
  with assms(3) have "m = m'" by simp
  with assms(3) show ?thesis by simp
qed

lemma split_byte: "(a::nat) = (a div k) * k + a mod k"
  by simp

lemma first_byte:
  assumes "a div 4 = a' div 4" "(a mod 4) * 16 + b div 16 = (a' mod 4) * 16 + b' div 16"
    "b < 256" "b' < 256"
  shows "(a::nat) = a' \<and> b div 16 = b' div 16"
proof -
  have "b div 16 < 16" "b' div 16 < 16" using assms(3,4) by simp_all
  then have "a mod 4 = a' mod 4 \<and> b div 16 = b' div 16"
    using assms(2) by (rule digits_eq)
  moreover have "a = (a div 4) * 4 + a mod 4" "a' = (a' div 4) * 4 + a' mod 4" by simp_all
  ultimately show ?thesis using assms(1) by simp
qed

lemma second_byte:
  assumes "b div 16 = b' div 16" "(b mod 16) * 4 + c div 64 = (b' mod 16) * 4 + c' div 64"
    "c < 256" "c' < 256"
  shows "(b::nat) = b' \<and> c div 64 = c' div 64"
proof -
  have "c div 64 < 4" "c' div 64 < 4" using assms(3,4) by simp_all
  then have "b mod 16 = b' mod 16 \<and> c div 64 = c' div 64"
    using assms(2) by (rule digits_eq)
  moreover have "b = (b div 16) * 16 + b mod 16" "b' = (b' div 16) * 16 + b' mod 16"
    by simp_all
  ultimately show ?thesis using assms(1) by simp
qed

lemma third_byte:
  assumes "c div 64 = c' div 64" "c mod 64 = c' mod 64"
  shows "(c::nat) = c'"
proof -
  have "c = (c div 64) * 64 + c mod 64" "c' = (c' div 64) * 64 + c' mod 64" by simp_all
  with assms show ?thesis by simp
qed


lemma of_char_less_256: "(of_char c :: nat) < 256"
proof -
  have "(of_char c :: nat) mod 256 = of_char c" by simp
  moreover have "(of_char c :: nat) mod 256 < 256" by simp
  ultimately show ?thesis by simp
qed

lemma length_base64Alphabet: "length base64Alphabet = 64"
  by (simp add: base64Alphabet_def)

lemma distinct_base64Alphabet: "distinct base64Alphabet"
  by (simp add: base64Alphabet_def)

lemma pad_not_in_alphabet: "CHR ''='' \<notin> set base64Alphabet"
  by (simp add: base64Alphabet_def)

lemma sextet_eq_iff: "m < 64 \<Longrightarrow> n < 64 \<Longrightarrow> sextet m = sextet n \<longleftrightarrow> m = n"
  unfolding sextet_def
  using distinct_base64Alphabet length_base64Alphabet by (simp add: nth_eq_iff_index_eq)

lemma sextet_not_pad: "n < 64 \<Longrightarrow> sextet n \<noteq> CHR ''=''"
proof
  assume "n < 64" "sextet n = CHR ''=''"
  then have "CHR ''='' \<in> set base64Alphabet"
    unfolding sextet_def using length_base64Alphabet nth_mem [of n base64Alphabet] by simp
  with pad_not_in_alphabet show False by simp
qed

lemma s1: "a < 256 \<Longrightarrow> a div 4 < (64::nat)"
  by simp

lemma s2: "b < 256 \<Longrightarrow> (a mod 4) * 16 + b div 16 < (64::nat)"
proof -
  assume "b < 256"
  then have "b div 16 < 16" by simp
  moreover have "a mod 4 < 4" by simp
  ultimately show ?thesis by linarith
qed

lemma s3: "c < 256 \<Longrightarrow> (b mod 16) * 4 + c div 64 < (64::nat)"
proof -
  assume "c < 256"
  then have "c div 64 < 4" by simp
  moreover have "b mod 16 < 16" by simp
  ultimately show ?thesis by linarith
qed

lemma s4: "c mod 64 < (64::nat)"
  by simp

lemma group1_inj:
  assumes "sextet (a div 4) = sextet (a' div 4)"
    "sextet ((a mod 4) * 16) = sextet ((a' mod 4) * 16)" "a < 256" "a' < 256"
  shows "a = a'"
proof -
  have "a div 4 = a' div 4" using assms(1,3,4) by (simp add: sextet_eq_iff)
  moreover have "(a mod 4) * 16 + 0 div 16 = (a' mod 4) * 16 + 0 div 16"
    using assms(2) s2 [of 0 a] s2 [of 0 a'] by (simp add: sextet_eq_iff)
  ultimately show ?thesis using first_byte [of a a' 0 0] by simp
qed

lemma group2_inj:
  assumes "sextet (a div 4) = sextet (a' div 4)"
    "sextet ((a mod 4) * 16 + b div 16) = sextet ((a' mod 4) * 16 + b' div 16)"
    "sextet ((b mod 16) * 4) = sextet ((b' mod 16) * 4)"
    "a < 256" "a' < 256" "b < 256" "b' < 256"
  shows "a = a' \<and> b = b'"
proof -
  have 1: "a div 4 = a' div 4" using assms(1,4,5) by (simp add: sextet_eq_iff)
  have 2: "(a mod 4) * 16 + b div 16 = (a' mod 4) * 16 + b' div 16"
    using assms(2) s2 [of b a] s2 [of b' a'] assms(6,7) by (simp add: sextet_eq_iff)
  have 3: "(b mod 16) * 4 + 0 div 64 = (b' mod 16) * 4 + 0 div 64"
    using assms(3) s3 [of 0 b] s3 [of 0 b'] by (simp add: sextet_eq_iff)
  from first_byte [OF 1 2 assms(6,7)] have ab: "a = a'" "b div 16 = b' div 16" by simp_all
  from second_byte [OF ab(2) 3] have "b = b'" by simp
  with ab show ?thesis by simp
qed

lemma group3_inj:
  assumes "sextet (a div 4) = sextet (a' div 4)"
    "sextet ((a mod 4) * 16 + b div 16) = sextet ((a' mod 4) * 16 + b' div 16)"
    "sextet ((b mod 16) * 4 + c div 64) = sextet ((b' mod 16) * 4 + c' div 64)"
    "sextet (c mod 64) = sextet (c' mod 64)"
    "a < 256" "a' < 256" "b < 256" "b' < 256" "c < 256" "c' < 256"
  shows "a = a' \<and> b = b' \<and> c = c'"
proof -
  have 1: "a div 4 = a' div 4" using assms(1,5,6) by (simp add: sextet_eq_iff)
  have 2: "(a mod 4) * 16 + b div 16 = (a' mod 4) * 16 + b' div 16"
    using assms(2) s2 [of b a] s2 [of b' a'] assms(7,8) by (simp add: sextet_eq_iff)
  have 3: "(b mod 16) * 4 + c div 64 = (b' mod 16) * 4 + c' div 64"
    using assms(3) s3 [of c b] s3 [of c' b'] assms(9,10) by (simp add: sextet_eq_iff)
  have 4: "c mod 64 = c' mod 64" using assms(4) by (simp add: sextet_eq_iff)
  from first_byte [OF 1 2 assms(7,8)] have ab: "a = a'" "b div 16 = b' div 16" by simp_all
  from second_byte [OF ab(2) 3 assms(9,10)] have bc: "b = b'" "c div 64 = c' div 64"
    by simp_all
  from third_byte [OF bc(2) 4] have "c = c'" .
  with ab bc show ?thesis by simp
qed

lemma base64Bytes_inj:
  "base64Bytes xs = base64Bytes ys \<Longrightarrow> \<forall>x\<in>set xs. x < 256 \<Longrightarrow> \<forall>y\<in>set ys. y < 256 \<Longrightarrow> xs = ys"
proof (induction xs arbitrary: ys rule: base64Bytes.induct)
  case 1
  then show ?case by (cases ys rule: base64Bytes.cases) simp_all
next
  case (2 a)
  note prems = "2.prems"
  show ?case
  proof (cases ys rule: base64Bytes.cases)
    case 1
    with prems show ?thesis by simp
  next
    case (2 a')
    with prems group1_inj [of a a'] show ?thesis by simp
  next
    case (3 a' b')
    with prems s3 [of 0 b'] sextet_not_pad [of "b' mod 16 * 4"] show ?thesis by auto
  next
    case (4 a' b' c' rest)
    with prems s3 [of c' b'] sextet_not_pad [of "b' mod 16 * 4 + c' div 64"]
    show ?thesis by auto
  qed
next
  case (3 a b)
  note prems = "3.prems"
  show ?case
  proof (cases ys rule: base64Bytes.cases)
    case 1
    with prems show ?thesis by simp
  next
    case (2 a')
    with prems s3 [of 0 b] sextet_not_pad [of "b mod 16 * 4"] show ?thesis by auto
  next
    case (3 a' b')
    with prems group2_inj [of a a' b b'] show ?thesis by simp
  next
    case (4 a' b' c' rest)
    with prems sextet_not_pad [of "c' mod 64"] show ?thesis by auto
  qed
next
  case (4 a b c rest)
  note prems = "4.prems" and IH = "4.IH"
  show ?case
  proof (cases ys rule: base64Bytes.cases)
    case 1
    with prems show ?thesis by simp
  next
    case (2 a')
    with prems s3 [of c b] sextet_not_pad [of "b mod 16 * 4 + c div 64"]
    show ?thesis by auto
  next
    case (3 a' b')
    with prems sextet_not_pad [of "c mod 64"] show ?thesis by auto
  next
    case (4 a' b' c' rest')
    note ys = this
    from prems ys have "a = a' \<and> b = b' \<and> c = c'"
      using group3_inj [of a a' b b' c c'] by simp
    moreover from prems ys have "base64Bytes rest = base64Bytes rest'" by simp
    with IH [of rest'] prems ys have "rest = rest'" by simp
    ultimately show ?thesis using ys by simp
  qed
qed

lemma base64_inj: "base64 s = base64 s' \<longleftrightarrow> s = s'"
proof
  assume "base64 s = base64 s'"
  then have "map of_char s = (map of_char s' :: nat list)"
    unfolding base64_def by (rule base64Bytes_inj) (auto simp: of_char_less_256)
  moreover have "inj (of_char :: char \<Rightarrow> nat)" by (rule inj_of_char)
  ultimately show "s = s'" by (simp add: inj_map_eq_map)
qed simp

lemma productIdentity_eq_iff:
  "productIdentity t s l = productIdentity t' s' l' \<longleftrightarrow>
     t @ ''-'' @ s @ ''-'' @ l = t' @ ''-'' @ s' @ ''-'' @ l'"
  by (simp add: productIdentity_def base64_inj)

lemma split_at_hyphen:
  assumes "CHR ''-'' \<notin> set a" "CHR ''-'' \<notin> set a'" "a @ CHR ''-'' # r = a' @ CHR ''-'' # r'"
  shows "a = a' \<and> r = r'"
proof -
  have "takeWhile (\<lambda>c. c \<noteq> CHR ''-'') (a @ CHR ''-'' # r) = a"
    using assms(1) by (auto simp: takeWhile_tail takeWhile_eq_all_conv)
  moreover have "takeWhile (\<lambda>c. c \<noteq> CHR ''-'') (a' @ CHR ''-'' # r') = a'"
    using assms(2) by (auto simp: takeWhile_tail takeWhile_eq_all_conv)
  ultimately have "a = a'" using assms(3) by simp
  with assms(3) show ?thesis by simp
qed

text \<open>
  Claim C5, as stated, fails: two triples that differ in title and source have the same
  identity when a hyphen moves from one field to the other.
\<close>

theorem identity_collision_counterexample:
  "(''a-b'', ''c'', ''l'') \<noteq> (''a'', ''b-c'', ''l'') \<and>
   productIdentity ''a-b'' ''c'' ''l'' = productIdentity ''a'' ''b-c'' ''l''"
  by (simp add: productIdentity_def)

text \<open>
  Claim C5, amended. The identity is a function of the triple (title, source, link). Two
  triples that differ in exactly one of the three fields have different identities, and
  so have two different triples whose titles and sources contain no hyphen.
\<close>

theorem identity_distinct:
  "(t \<noteq> t' \<longrightarrow> productIdentity t s l \<noteq> productIdentity t' s l) \<and>
   (s \<noteq> s' \<longrightarrow> productIdentity t s l \<noteq> productIdentity t s' l) \<and>
   (l \<noteq> l' \<longrightarrow> productIdentity t s l \<noteq> productIdentity t s l') \<and>
   (CHR ''-'' \<notin> set t \<and> CHR ''-'' \<notin> set t' \<and> CHR ''-'' \<notin> set s \<and> CHR ''-'' \<notin> set s' \<and>
      (t, s, l) \<noteq> (t', s', l') \<longrightarrow> productIdentity t s l \<noteq> productIdentity t' s' l')"
proof -
  have "(t, s, l) = (t', s', l')"
    if h: "CHR ''-'' \<notin> set t" "CHR ''-'' \<notin> set t'" "CHR ''-'' \<notin> set s" "CHR ''-'' \<notin> set s'"
      and eq: "productIdentity t s l = productIdentity t' s' l'"
  proof -
    from eq have "t @ CHR ''-'' # (s @ CHR ''-'' # l) = t' @ CHR ''-'' # (s' @ CHR ''-'' # l')"
      by (simp add: productIdentity_eq_iff)
    with h(1,2) have 1: "t = t' \<and> s @ CHR ''-'' # l = s' @ CHR ''-'' # l'"
      by (rule split_at_hyphen)
    then have "s = s' \<and> l = l'" using h(3,4) split_at_hyphen [of s s' l l'] by simp
    with 1 show ?thesis by simp
  qed
  then show ?thesis by (auto simp: productIdentity_eq_iff)
qed

theorem identity_distinct_witness:
  "productIdentity ''Phone X'' ''shop'' ''https://a.example/1''
     \<noteq> productIdentity ''Phone Y'' ''shop'' ''https://a.example/1'' \<and>
   productIdentity ''Phone X'' ''shop'' ''https://a.example/1''
     \<noteq> productIdentity ''Phone X'' ''store'' ''https://a.example/1'' \<and>
   productIdentity ''Phone X'' ''shop'' ''https://a.example/1''
     \<noteq> productIdentity ''Phone X'' ''shop'' ''https://a.example/2'' \<and>
   productIdentity ''Phone X'' ''shop'' ''https://a.example/1''
     \<noteq> productIdentity ''Phone Y'' ''store'' ''https://a.example/2''"
  using identity_distinct [of "''Phone X''" "''Phone Y''" "''shop''" "''https://a.example/1''"
      "''store''" "''https://a.example/2''"]
    identity_distinct [of "''Phone X''" "''Phone Y''" "''shop''" "''https://a.example/1''"
      "''store''" "''https://a.example/1''"]
    identity_distinct [of "''Phone X''" "''Phone Y''" "''shop''" "''https://a.example/1''"
      "''shop''" "''https://a.example/2''"]
  by simp

section \<open>The provider adapters and the aggregation search\<close>

lemma ebayProduct_fields:
  "price (ebayProduct item) = item_price item"
  "thumbnail (ebayProduct item) = item_thumbnail item"
  by (simp_all add: ebayProduct_def)

lemma priceOnlyItem_fields:
  "strTruthy (item_price priceOnlyItem)" "\<not> strTruthy (item_thumbnail priceOnlyItem)"
  by (simp_all add: priceOnlyItem_def strTruthy_def)

lemma fullItem_fields:
  "strTruthy (item_price fullItem)" "strTruthy (item_thumbnail fullItem)"
  by (simp_all add: fullItem_def strTruthy_def)

text \<open>
  Claim C4, as stated, fails: the eBay adapter drops an item that has a price and lacks
  a thumbnail.
\<close>

theorem ebay_filter_counterexample:
  "strTruthy (item_price priceOnlyItem) \<and>
   ebayProduct priceOnlyItem \<notin> set (ebayProducts [priceOnlyItem])"
  by (simp add: ebayProducts_def priceOnlyItem_fields)

text \<open>
  Claim C4, amended. For the eBay adapter only, an item of the result array is kept in
  the normalized list exactly when it has both a price and a thumbnail; an item lacking
  either is dropped. The other two adapters keep every item.
\<close>

theorem ebay_keeps_items_with_price_and_thumbnail:
  "(\<forall>item\<in>set items.
      ebayProduct item \<in> set (ebayProducts items) \<longleftrightarrow>
        strTruthy (item_price item) \<and> strTruthy (item_thumbnail item)) \<and>
   length (ebayProducts items) =
     length (filter (\<lambda>item. strTruthy (item_price item) \<and> strTruthy (item_thumbnail item)) items) \<and>
   length (googleProducts items) = length items \<and>
   length (amazonProducts items) = length items"
proof -
  have kept: "ebayProduct item \<in> set (ebayProducts items) \<longleftrightarrow>
      strTruthy (item_price item) \<and> strTruthy (item_thumbnail item)"
    if mem: "item \<in> set items" for item
  proof
    assume "ebayProduct item \<in> set (ebayProducts items)"
    then obtain j where j: "strTruthy (item_price j)" "strTruthy (item_thumbnail j)"
      "ebayProduct item = ebayProduct j"
      unfolding ebayProducts_def by auto
    from j(3) have "price (ebayProduct item) = price (ebayProduct j)"
      "thumbnail (ebayProduct item) = thumbnail (ebayProduct j)" by simp_all
    then have "item_price item = item_price j" "item_thumbnail item = item_thumbnail j"
      by (simp_all only: ebayProduct_fields)
    with j(1,2) show "strTruthy (item_price item) \<and> strTruthy (item_thumbnail item)"
      by simp
  next
    assume "strTruthy (item_price item) \<and> strTruthy (item_thumbnail item)"
    with mem show "ebayProduct item \<in> set (ebayProducts items)"
      unfolding ebayProducts_def by simp
  qed
  have len: "length (ebayProducts items) =
     length (filter (\<lambda>item. strTruthy (item_price item) \<and> strTruthy (item_thumbnail item)) items)"
    by (simp add: ebayProducts_def)
  have "length (googleProducts items) = length items" by (simp add: googleProducts_def)
  moreover have "length (amazonProducts items) = length items"
    by (simp add: amazonProducts_def)
  ultimately show ?thesis using kept len by blast
qed

theorem ebay_keeps_items_with_price_and_thumbnail_witness:
  "ebayProduct fullItem \<in> set (ebayProducts [fullItem, priceOnlyItem]) \<and>
   ebayProduct priceOnlyItem \<notin> set (ebayProducts [fullItem, priceOnlyItem]) \<and>
   length (ebayProducts [fullItem, priceOnlyItem]) = 1"
proof -
  note t = ebay_keeps_items_with_price_and_thumbnail [of "[fullItem, priceOnlyItem]"]
  from t have all: "\<forall>item\<in>set [fullItem, priceOnlyItem].
      ebayProduct item \<in> set (ebayProducts [fullItem, priceOnlyItem]) \<longleftrightarrow>
        strTruthy (item_price item) \<and> strTruthy (item_thumbnail item)" by (rule conjunct1)
  have "fullItem \<in> set [fullItem, priceOnlyItem]" by simp
  with all have 1: "ebayProduct fullItem \<in> set (ebayProducts [fullItem, priceOnlyItem])"
    using fullItem_fields by blast
  have "priceOnlyItem \<in> set [fullItem, priceOnlyItem]" by simp
  with all have 2: "ebayProduct priceOnlyItem \<notin> set (ebayProducts [fullItem, priceOnlyItem])"
    using priceOnlyItem_fields by blast
  have 3: "length (ebayProducts [fullItem, priceOnlyItem]) = 1"
    by (simp add: ebayProducts_def fullItem_fields priceOnlyItem_fields)
  from 1 2 3 show ?thesis by simp
qed

lemma provider_all: "(\<forall>p. P p) \<longleftrightarrow> P GoogleShopping \<and> P Amazon \<and> P EBay"
  by (metis provider.exhaust)

lemma addPredictions_None_iff:
  "addPredictions hist tf k ps = None \<longleftrightarrow>
     (\<exists>i<length ps.
        getPricePrediction (db_all_price_history (hist (k + i))) (pid (ps ! i)) (price (ps ! i))
          = None)"
proof (induction ps arbitrary: k)
  case Nil
  show ?case by simp
next
  case (Cons p ps)
  have A: "(\<exists>i<length (p # ps).
        getPricePrediction (db_all_price_history (hist (k + i))) (pid ((p # ps) ! i))
          (price ((p # ps) ! i)) = None) \<longleftrightarrow>
      getPricePrediction (db_all_price_history (hist k)) (pid p) (price p) = None \<or>
      (\<exists>i<length ps.
        getPricePrediction (db_all_price_history (hist (Suc k + i))) (pid (ps ! i))
          (price (ps ! i)) = None)"
    by (simp add: less_Suc_eq_0_disj ex_disj_distrib) auto
  have B: "addPredictions hist tf k (p # ps) = None \<longleftrightarrow>
      getPricePrediction (db_all_price_history (hist k)) (pid p) (price p) = None \<or>
      addPredictions hist tf (Suc k) ps = None"
    by (simp split: option.splits)
  show ?case by (simp only: A B Cons.IH [of "Suc k"])
qed

lemma addPredictions_Some:
  "addPredictions hist tf k ps = Some ps' \<Longrightarrow>
     map listingOf ps' = map listingOf ps \<and>
     map price ps' = map (\<lambda>x. formatPrice tf (price x)) ps \<and>
     list_all (\<lambda>x. prediction x \<noteq> None) ps'"
proof (induction ps arbitrary: k ps')
  case Nil
  then show ?case by simp
next
  case (Cons p ps)
  from Cons.prems obtain t rest where
    t: "getPricePrediction (db_all_price_history (hist k)) (pid p) (price p) = Some t"
    and rest: "addPredictions hist tf (Suc k) ps = Some rest"
    and ps': "ps' = p\<lparr>price := formatPrice tf (price p), prediction := Some t\<rparr> # rest"
    by (auto split: option.splits)
  from Cons.IH [OF rest] ps' show ?case by (simp add: listingOf_def)
qed

lemma raisesTypeError_iff:
  "raisesTypeError hist ps \<longleftrightarrow>
     (\<exists>i<length ps.
        getPricePrediction (db_all_price_history (hist i)) (pid (ps ! i)) (price (ps ! i))
          = None)"
  by (auto simp: raisesTypeError_def list_ex_iff prediction_None_iff db_all_price_history_def)

lemma enrichAndRank_raises:
  "enrichAndRank hist tf ps q = Inl UncaughtTypeError \<longleftrightarrow> raisesTypeError hist ps"
proof -
  have R: "raisesTypeError hist ps \<longleftrightarrow> addPredictions hist tf 0 ps = None"
    unfolding raisesTypeError_iff addPredictions_None_iff by simp
  show ?thesis
    unfolding R by (cases "addPredictions hist tf 0 ps") (simp_all add: enrichAndRank_def)
qed

lemma enrichAndRank_not_NoProducts: "enrichAndRank hist tf ps q = Inl NoProductsFound \<longleftrightarrow> False"
  by (simp add: enrichAndRank_def split: option.splits)

lemma enrichAndRank_returns:
  assumes "\<not> raisesTypeError hist ps"
  shows "\<exists>enriched. enrichAndRank hist tf ps q = Inr (filterAndSortProducts enriched q) \<and>
    map listingOf enriched = map listingOf ps \<and>
    map price enriched = map (\<lambda>x. formatPrice tf (price x)) ps \<and>
    list_all (\<lambda>x. prediction x \<noteq> None) enriched"
proof -
  have "raisesTypeError hist ps \<longleftrightarrow> addPredictions hist tf 0 ps = None"
    unfolding raisesTypeError_iff addPredictions_None_iff by simp
  with assms have "addPredictions hist tf 0 ps \<noteq> None" by blast
  then obtain ps' where ps': "addPredictions hist tf 0 ps = Some ps'" by auto
  then have "enrichAndRank hist tf ps q = Inr (filterAndSortProducts ps' q)"
    by (simp add: enrichAndRank_def)
  with addPredictions_Some [OF ps'] show ?thesis by blast
qed

lemma enrichAndRank_outcome: "outcomeFor (enrichAndRank hist tf ps q) hist tf ps q"
  unfolding outcomeFor_def using enrichAndRank_raises enrichAndRank_returns by blast

lemma processProducts_outcome:
  "fst (processProducts seen tf now st ps q) =
     enrichAndRank (historySeen seen now ps (store_price_history st)) tf ps q"
  by (simp add: processProducts_def)

text \<open>
  Claim C1, as stated, fails: when Google Shopping answers with an empty result array,
  its normalized list is empty, Amazon is not asked although it has an item, and the
  search returns the empty list.
\<close>

theorem search_empty_array_counterexample:
  "normalized GoogleShopping [] = [] \<and>
   emptyGoogleFetch GoogleShopping ''phone'' = ResultsField [] \<and>
   emptyGoogleFetch Amazon ''phone'' = ResultsField [fullItem] \<and>
   performSerpApiSearch emptyGoogleFetch firstReadBefore toFixedExact 7 emptyStore ''phone''
     = ([GoogleShopping], Inr [], emptyStore)"
  by (simp add: performSerpApiSearch_def processProducts_def googleProducts_def
      enrichAndRank_def filterAndSortProducts_def array_sort_def storeProducts_def
      newPricePoints_def emptyStore_def)

lemma search_outcome:
  assumes "r = performSerpApiSearch fetch seen tf now st q"
  shows
    "(hasResultsField (fetch GoogleShopping q) \<longrightarrow> fst r = [GoogleShopping]) \<and>
     (\<not> hasResultsField (fetch GoogleShopping q) \<and> hasResultsField (fetch Amazon q) \<longrightarrow>
        fst r = [GoogleShopping, Amazon]) \<and>
     (\<not> hasResultsField (fetch GoogleShopping q) \<and> \<not> hasResultsField (fetch Amazon q) \<longrightarrow>
        fst r = [GoogleShopping, Amazon, EBay]) \<and>
     (\<forall>p items.
        p = last (fst r) \<and> fetch p q = ResultsField items \<longrightarrow>
          outcomeFor (fst (snd r))
            (historySeen seen now (normalized p items) (store_price_history st))
            tf (normalized p items) q) \<and>
     (fst (snd r) = Inl NoProductsFound \<longleftrightarrow> (\<forall>p. \<not> hasResultsField (fetch p q)))"
proof -
  note E = enrichAndRank_outcome enrichAndRank_not_NoProducts processProducts_outcome
  show ?thesis
  proof (cases "fetch GoogleShopping q")
    case (ResultsField items)
    then show ?thesis
      unfolding assms
      by (simp add: performSerpApiSearch_def hasResultsField_def provider_all E)
  next
    case G: Throws
    show ?thesis
    proof (cases "fetch Amazon q")
      case (ResultsField items)
      with G show ?thesis
        unfolding assms
        by (simp add: performSerpApiSearch_def hasResultsField_def provider_all E)
    next
      case A: Throws
      show ?thesis
        unfolding assms
        by (cases "fetch EBay q")
          (simp_all add: G A performSerpApiSearch_def hasResultsField_def provider_all E)
    next
      case A: NoResultsField
      show ?thesis
        unfolding assms
        by (cases "fetch EBay q")
          (simp_all add: G A performSerpApiSearch_def hasResultsField_def provider_all E)
    qed
  next
    case G: NoResultsField
    show ?thesis
    proof (cases "fetch Amazon q")
      case (ResultsField items)
      with G show ?thesis
        unfolding assms
        by (simp add: performSerpApiSearch_def hasResultsField_def provider_all E)
    next
      case A: Throws
      show ?thesis
        unfolding assms
        by (cases "fetch EBay q")
          (simp_all add: G A performSerpApiSearch_def hasResultsField_def provider_all E)
    next
      case A: NoResultsField
      show ?thesis
        unfolding assms
        by (cases "fetch EBay q")
          (simp_all add: G A performSerpApiSearch_def hasResultsField_def provider_all E)
    qed
  qed
qed

text \<open>
  Claim C1, amended. The search asks the providers in the order Google Shopping, Amazon,
  eBay, and stops at the first one whose response carries the results field, also when
  the array is empty: it asks Google Shopping alone when that response has the field,
  Google Shopping and Amazon when the first lacks the field and the second has it, and
  all three otherwise. A provider that fails or answers without the field is passed
  over. At the provider it stops at, the search returns the ranking of that provider's
  normalized items, each with its price formatted and with a prediction, unless a
  prediction raises the uncaught TypeError, which happens exactly when an item without
  a price has at least three parseable rows in the history read for it. The search
  fails with the error for no products exactly when every provider failed or answered
  without the results field.
\<close>

theorem search_fallback_on_missing_field:
  assumes "r = performSerpApiSearch fetch seen tf now st q"
  shows
    "(hasResultsField (fetch GoogleShopping q) \<longrightarrow> fst r = [GoogleShopping]) \<and>
     (\<not> hasResultsField (fetch GoogleShopping q) \<and> hasResultsField (fetch Amazon q) \<longrightarrow>
        fst r = [GoogleShopping, Amazon]) \<and>
     (\<not> hasResultsField (fetch GoogleShopping q) \<and> \<not> hasResultsField (fetch Amazon q) \<longrightarrow>
        fst r = [GoogleShopping, Amazon, EBay]) \<and>
     (\<forall>p items.
        p = last (fst r) \<and> fetch p q = ResultsField items \<longrightarrow>
          (fst (snd r) = Inl UncaughtTypeError \<longleftrightarrow>
             raisesTypeError
               (historySeen seen now (normalized p items) (store_price_history st))
               (normalized p items)) \<and>
          (fst (snd r) \<noteq> Inl UncaughtTypeError \<longrightarrow>
             (\<exists>enriched. fst (snd r) = Inr (filterAndSortProducts enriched q) \<and>
                map listingOf enriched = map listingOf (normalized p items) \<and>
                map price enriched
                  = map (\<lambda>x. formatPrice tf (price x)) (normalized p items) \<and>
                list_all (\<lambda>x. prediction x \<noteq> None) enriched))) \<and>
     (fst (snd r) = Inl NoProductsFound \<longleftrightarrow> (\<forall>p. \<not> hasResultsField (fetch p q)))"
  using search_outcome [OF assms] unfolding outcomeFor_def .

lemma fallback_no_field:
  "\<not> hasResultsField (fallbackFetch GoogleShopping ''phone'')"
  "\<not> hasResultsField (fallbackFetch Amazon ''phone'')"
  by (simp_all add: hasResultsField_def)

lemma failingFetch_no_field: "\<not> hasResultsField (failingFetch p ''phone'')"
  by (cases p) (simp_all add: hasResultsField_def)

lemma fallback_ebay_priced:
  "\<not> raisesTypeError
       (historySeen firstReadBefore 7 (normalized EBay [fullItem, priceOnlyItem])
          (store_price_history emptyStore))
       (normalized EBay [fullItem, priceOnlyItem])"
  by (simp add: raisesTypeError_def ebayProducts_def fullItem_fields priceOnlyItem_fields
      ebayProduct_def fullItem_def)

theorem search_fallback_on_missing_field_witness:
  "\<not> hasResultsField (fallbackFetch GoogleShopping ''phone'') \<and>
   \<not> hasResultsField (fallbackFetch Amazon ''phone'') \<and>
   fallbackFetch EBay ''phone'' = ResultsField [fullItem, priceOnlyItem] \<and>
   fst (performSerpApiSearch fallbackFetch firstReadBefore toFixedExact 7 emptyStore ''phone'')
     = [GoogleShopping, Amazon, EBay] \<and>
   (\<exists>enriched.
      fst (snd (performSerpApiSearch fallbackFetch firstReadBefore toFixedExact 7 emptyStore
                  ''phone''))
        = Inr (filterAndSortProducts enriched ''phone'') \<and>
      map listingOf enriched = map listingOf (normalized EBay [fullItem, priceOnlyItem]) \<and>
      map price enriched
        = map (\<lambda>x. formatPrice toFixedExact (price x))
            (normalized EBay [fullItem, priceOnlyItem]) \<and>
      list_all (\<lambda>x. prediction x \<noteq> None) enriched) \<and>
   fst (snd (performSerpApiSearch failingFetch firstReadBefore toFixedExact 7 emptyStore
               ''phone''))
     = Inl NoProductsFound"
proof -
  note a = search_fallback_on_missing_field
    [of _ fallbackFetch firstReadBefore toFixedExact 7 emptyStore "''phone''", OF refl]
  note b = search_fallback_on_missing_field
    [of _ failingFetch firstReadBefore toFixedExact 7 emptyStore "''phone''", OF refl]
  let ?r = "performSerpApiSearch fallbackFetch firstReadBefore toFixedExact 7 emptyStore
    ''phone''"
  from a fallback_no_field have asked: "fst ?r = [GoogleShopping, Amazon, EBay]" by blast
  have e: "fallbackFetch EBay ''phone'' = ResultsField [fullItem, priceOnlyItem]" by simp
  have l: "EBay = last (fst ?r)" unfolding asked by simp
  from a l e have o:
    "(fst (snd ?r) = Inl UncaughtTypeError \<longleftrightarrow>
        raisesTypeError
          (historySeen firstReadBefore 7 (normalized EBay [fullItem, priceOnlyItem])
             (store_price_history emptyStore))
          (normalized EBay [fullItem, priceOnlyItem])) \<and>
     (fst (snd ?r) \<noteq> Inl UncaughtTypeError \<longrightarrow>
        (\<exists>enriched. fst (snd ?r) = Inr (filterAndSortProducts enriched ''phone'') \<and>
           map listingOf enriched = map listingOf (normalized EBay [fullItem, priceOnlyItem]) \<and>
           map price enriched
             = map (\<lambda>x. formatPrice toFixedExact (price x))
                 (normalized EBay [fullItem, priceOnlyItem]) \<and>
           list_all (\<lambda>x. prediction x \<noteq> None) enriched))"
    by blast
  with fallback_ebay_priced have
    "\<exists>enriched. fst (snd ?r) = Inr (filterAndSortProducts enriched ''phone'') \<and>
       map listingOf enriched = map listingOf (normalized EBay [fullItem, priceOnlyItem]) \<and>
       map price enriched
         = map (\<lambda>x. formatPrice toFixedExact (price x))
             (normalized EBay [fullItem, priceOnlyItem]) \<and>
       list_all (\<lambda>x. prediction x \<noteq> None) enriched"
    by blast
  moreover from b failingFetch_no_field have
    "fst (snd (performSerpApiSearch failingFetch firstReadBefore toFixedExact 7 emptyStore
                 ''phone'')) = Inl NoProductsFound"
    by blast
  ultimately show ?thesis using fallback_no_field asked e by blast
qed

text \<open>
  The predictions read the rows that the search itself writes. Google Shopping answers
  four times with the same listing and the store is empty: the first prediction reads
  no row and is neutral, the later ones read the four new rows and are buy.
\<close>

lemma search_reads_own_writes:
  "map (map prediction)
     (case fst (snd (performSerpApiSearch repeatedFetch firstReadBefore toFixedExact 7
                       emptyStore ''phone'')) of
        Inl e \<Rightarrow> [] | Inr out \<Rightarrow> [out])
     = [[Some Neutral, Some Buy, Some Buy, Some Buy]]"
  by code_simp

text \<open>
  An item without a price whose history has three parseable rows: the prediction raises
  and the search ends with the uncaught error.
\<close>

lemma search_uncaught_example:
  "fst (snd (performSerpApiSearch noPriceFetch firstReadBefore toFixedExact 7 noPriceStore
               ''phone''))
     = Inl UncaughtTypeError"
  by code_simp

section \<open>Cart reminders\<close>

lemma cond_generic:
  "(\<not> js_isNaN x \<and> \<not> js_isNaN y \<and> js_le x y)
    = (case (x, y) of (NaN, _) \<Rightarrow> False | (_, NaN) \<Rightarrow> False | (a, b) \<Rightarrow> js_le a b)"
  by (cases x; cases y) simp_all

lemma sweepRow_eq:
  "sweepRow row (cart, sent) =
     (if priceDropped row
      then (clearReminder (rr_user_id row) (rr_product_id row) cart, sent @ [priceDropMail row])
      else (cart, sent))"
  unfolding sweepRow_def priceDropped_def priceDropMail_def Let_def cond_generic
  by simp

lemma reminderOf_clearReminder:
  "reminderOf (clearReminder u p cart) u' p' =
     (if u' = u \<and> p' = p then map_option (\<lambda>_. None) (reminderOf cart u p)
      else reminderOf cart u' p')"
  by (induction cart) (auto simp: reminderOf_def clearReminder_def)

lemma clearReminder_member:
  "c \<in> set (clearReminder u p cart) \<Longrightarrow>
     \<exists>c0\<in>set cart. c = (if cart_user_id c0 = u \<and> cart_product_id c0 = p
                           then c0\<lparr>reminder_price := None\<rparr> else c0)"
  by (auto simp: clearReminder_def)

lemma cleared_row:
  "c = (if cart_user_id c0 = u \<and> cart_product_id c0 = p
        then c0\<lparr>reminder_price := None\<rparr> else c0) \<Longrightarrow>
   cart_user_id c = u \<Longrightarrow> cart_product_id c = p \<Longrightarrow> reminder_price c = None"
  by (cases "cart_user_id c0 = u \<and> cart_product_id c0 = p") simp_all

lemma clearReminder_cleared:
  assumes "c \<in> set (clearReminder u p cart)" and "cart_user_id c = u" and "cart_product_id c = p"
  shows "reminder_price c = None"
proof -
  from clearReminder_member [OF assms(1)] obtain c0 where
    "c = (if cart_user_id c0 = u \<and> cart_product_id c0 = p
          then c0\<lparr>reminder_price := None\<rparr> else c0)" ..
  then show ?thesis using assms(2,3) by (rule cleared_row)
qed

text \<open>
  Claim C8. In one step of the sweep over a row whose reminder price is set: when the
  last price and the reminder price both parse to numbers and the last price is at most
  the reminder price, exactly one email is sent for the row, every cart row of that user
  and product has its reminder price null afterwards, and the other cart rows keep
  theirs; otherwise no email is sent and the cart is unchanged.
\<close>

theorem sweep_row_sends_once_and_clears:
  "(priceDropped row \<longrightarrow>
      snd (sweepRow row (cart, sent)) = sent @ [priceDropMail row] \<and>
      (\<forall>c\<in>set (fst (sweepRow row (cart, sent))).
          cart_user_id c = rr_user_id row \<and> cart_product_id c = rr_product_id row \<longrightarrow>
            reminder_price c = None) \<and>
      (reminderOf cart (rr_user_id row) (rr_product_id row) \<noteq> None \<longrightarrow>
         reminderOf (fst (sweepRow row (cart, sent))) (rr_user_id row) (rr_product_id row)
           = Some None) \<and>
      (\<forall>u p. \<not> (u = rr_user_id row \<and> p = rr_product_id row) \<longrightarrow>
         reminderOf (fst (sweepRow row (cart, sent))) u p = reminderOf cart u p)) \<and>
   (\<not> priceDropped row \<longrightarrow> sweepRow row (cart, sent) = (cart, sent))"
proof -
  let ?cart' = "clearReminder (rr_user_id row) (rr_product_id row) cart"
  have 1: "\<forall>c\<in>set ?cart'.
      cart_user_id c = rr_user_id row \<and> cart_product_id c = rr_product_id row \<longrightarrow>
        reminder_price c = None"
    using clearReminder_cleared [of _ "rr_user_id row" "rr_product_id row" cart] by blast
  have 2: "reminderOf cart (rr_user_id row) (rr_product_id row) \<noteq> None \<longrightarrow>
      reminderOf ?cart' (rr_user_id row) (rr_product_id row) = Some None"
    by (auto simp: reminderOf_clearReminder)
  have 3: "\<forall>u p. \<not> (u = rr_user_id row \<and> p = rr_product_id row) \<longrightarrow>
      reminderOf ?cart' u p = reminderOf cart u p"
    by (simp add: reminderOf_clearReminder)
  show ?thesis
    unfolding sweepRow_eq using 1 2 3 by simp
qed

lemma dropRow_dropped: "priceDropped dropRow"
  by code_simp

lemma noDropRow_not_dropped: "\<not> priceDropped noDropRow"
  by code_simp

lemma cartExample_reminder:
  "reminderOf cartExample (Suc 0) ''p1'' = Some (Some (rupee @ ''50000''))"
  by (simp add: reminderOf_def cartExample_def)

theorem sweep_row_sends_once_and_clears_witness:
  "snd (sweepRow dropRow (cartExample, [])) = [priceDropMail dropRow] \<and>
   reminderOf (fst (sweepRow dropRow (cartExample, []))) 1 ''p1'' = Some None \<and>
   reminderOf (fst (sweepRow dropRow (cartExample, []))) 2 ''p1''
     = reminderOf cartExample 2 ''p1'' \<and>
   sweepRow noDropRow (cartExample, []) = (cartExample, [])"
proof -
  note a = sweep_row_sends_once_and_clears [of dropRow cartExample "[]"]
  note b = sweep_row_sends_once_and_clears [of noDropRow cartExample "[]"]
  have u: "rr_user_id dropRow = 1" "rr_product_id dropRow = ''p1''"
    by (simp_all add: dropRow_def)
  from a dropRow_dropped have
    "snd (sweepRow dropRow (cartExample, [])) = [priceDropMail dropRow]"
    "reminderOf (fst (sweepRow dropRow (cartExample, []))) 1 ''p1'' = Some None"
    "reminderOf (fst (sweepRow dropRow (cartExample, []))) 2 ''p1''
       = reminderOf cartExample 2 ''p1''"
    by (simp_all add: u cartExample_reminder)
  moreover from b noDropRow_not_dropped
  have "sweepRow noDropRow (cartExample, []) = (cartExample, [])" by simp
  ultimately show ?thesis by simp
qed

text \<open>The whole sweep on the example tables: one email, one reminder cleared.\<close>

lemma priceDropSweep_example:
  "priceDropSweep productsExample customersExample (cartExample, []) =
     ([\<lparr>cart_user_id = 1, cart_product_id = ''p1'', reminder_price = None, cart_added_at = 10\<rparr>,
       \<lparr>cart_user_id = 2, cart_product_id = ''p1'', reminder_price = Some (rupee @ ''40000''),
        cart_added_at = 11\<rparr>],
      [priceDropMail dropRow])"
  by code_simp

section \<open>Wishlist\<close>

lemma wl_key_simp: "wl_key \<lparr>wl_user_id = u, wl_product_id = p, wl_added_at = n\<rparr> = (u, p)"
  by (simp add: wl_key_def)

lemma wishlistAdd_valid:
  "u \<noteq> [] \<Longrightarrow> p \<noteq> [] \<Longrightarrow>
   wishlistAdd (Some u) (Some p) now tbl =
     (if (u, p) \<in> set (map wl_key tbl) then ((200, ''Already in wishlist.''), tbl)
      else ((200, ''Added to wishlist.''),
            tbl @ [\<lparr>wl_user_id = u, wl_product_id = p, wl_added_at = now\<rparr>]))"
  by (simp add: wishlistAdd_def insertOrIgnore_def wl_key_simp)

text \<open>
  Claim C9. For a user and a product given in the request, adding the pair twice reports
  on the second call that it is already in the wishlist, without an error, and the
  second call changes nothing. When the pair was not stored before, the first call
  reports that it was added and the table then holds exactly one row for the pair, with
  the time of the first call.
\<close>

theorem wishlist_add_twice:
  assumes "u \<noteq> []" and "p \<noteq> []"
  shows "fst (wishlistAdd (Some u) (Some p) now2 (snd (wishlistAdd (Some u) (Some p) now1 tbl)))
           = (200, ''Already in wishlist.'') \<and>
         snd (wishlistAdd (Some u) (Some p) now2 (snd (wishlistAdd (Some u) (Some p) now1 tbl)))
           = snd (wishlistAdd (Some u) (Some p) now1 tbl) \<and>
         ((u, p) \<notin> set (map wl_key tbl) \<longrightarrow>
            fst (wishlistAdd (Some u) (Some p) now1 tbl) = (200, ''Added to wishlist.'') \<and>
            filter (\<lambda>r. wl_key r = (u, p))
              (snd (wishlistAdd (Some u) (Some p) now2
                 (snd (wishlistAdd (Some u) (Some p) now1 tbl))))
              = [\<lparr>wl_user_id = u, wl_product_id = p, wl_added_at = now1\<rparr>])"
proof -
  have absent: "filter (\<lambda>r. wl_key r = (u, p)) tbl = []" if "(u, p) \<notin> set (map wl_key tbl)"
    using that by (induction tbl) auto
  show ?thesis
    using assms absent by (auto simp: wishlistAdd_valid wl_key_simp)
qed

theorem wishlist_add_twice_witness:
  "fst (wishlistAdd (Some ''u1'') (Some ''p1'') 5 []) = (200, ''Added to wishlist.'') \<and>
   fst (wishlistAdd (Some ''u1'') (Some ''p1'') 9 (snd (wishlistAdd (Some ''u1'') (Some ''p1'') 5 [])))
     = (200, ''Already in wishlist.'') \<and>
   filter (\<lambda>r. wl_key r = (''u1'', ''p1''))
     (snd (wishlistAdd (Some ''u1'') (Some ''p1'') 9
        (snd (wishlistAdd (Some ''u1'') (Some ''p1'') 5 []))))
     = [\<lparr>wl_user_id = ''u1'', wl_product_id = ''p1'', wl_added_at = 5\<rparr>]"
  using wishlist_add_twice [of "''u1''" "''p1''" 9 5 "[]"]
  by auto

end
